theory Spec2Isabelle
  imports Complex_Main
begin

section \<open>Python values used by yahoo\_fantasy.py\<close>

text \<open>
  The exceptions the modelled code can raise. \<open>KeyError\<close> carries the missing label,
  \<open>ValueError\<close> its message, \<open>FileNotFoundError\<close> the path; \<open>ExternalError\<close>
  is whatever a call into the OAuth client or the fantasy API raises.
\<close>

datatype error =
  IndexError | KeyError string | ValueError string | FileNotFoundError string
  | ExternalError string

text \<open>
  A stat cell of the matchup dataframe is a Python float. Only the order of the values is
  used by the code below, so a finite float is a real number; \<open>NaN\<close> is kept apart,
  because pandas fills missing cells with it and every comparison with it is false.
\<close>

datatype pyfloat = Num real | NaN

fun py_lt :: "pyfloat \<Rightarrow> pyfloat \<Rightarrow> bool" where
  "py_lt (Num a) (Num b) = (a < b)"
| "py_lt _ _ = False"

fun py_gt :: "pyfloat \<Rightarrow> pyfloat \<Rightarrow> bool" where
  "py_gt (Num a) (Num b) = (a > b)"
| "py_gt _ _ = False"

fun py_eq :: "pyfloat \<Rightarrow> pyfloat \<Rightarrow> bool" where
  "py_eq (Num a) (Num b) = (a = b)"
| "py_eq _ _ = False"

text \<open>\<open>str(n)\<close> of a non-negative Python int, as the f-strings print the counts.\<close>

definition digit_char :: "nat \<Rightarrow> char" where
  "digit_char d = ''0123456789'' ! d"

fun str_nat :: "nat \<Rightarrow> string" where
  "str_nat n = (if n < 10 then [digit_char n]
                else str_nat (n div 10) @ [digit_char (n mod 10)])"

declare str_nat.simps [simp del]

text \<open>\<open>sep.join(xs)\<close>.\<close>

fun join :: "string \<Rightarrow> string list \<Rightarrow> string" where
  "join sep [] = []"
| "join sep [x] = x"
| "join sep (x # y # ys) = x @ sep @ join sep (y # ys)"

section \<open>The matchup dataframe\<close>

text \<open>
  \<open>extract_matchup_scores\<close> builds the dataframe from a list of dicts, one per team: the
  stat columns (floats), \<open>manager\<close>, \<open>teamName\<close> and \<open>matchupNumber\<close>. The index is
  the default \<open>0..n-1\<close>, so \<open>df.loc[i]\<close> is the \<open>i\<close>-th row. Whether a label is a column
  is a property of the frame, not of a row: \<open>columns\<close> lists the stat columns, and a cell
  no dict supplied is \<open>NaN\<close>.
\<close>

record team_row =
  manager :: string
  teamName :: string
  matchupNumber :: string
  stat :: "string \<Rightarrow> pyfloat"

record team_row_totals = team_row +
  totalWins :: real
  totalLosses :: real
  totalTies :: real

record 'r dataframe =
  columns :: "string list"
  rows :: "'r list"

text \<open>\<open>row[cat]\<close> on a row of the frame: \<open>KeyError\<close> when the frame has no such column.\<close>

definition series_get ::
  "string list \<Rightarrow> 'a team_row_scheme \<Rightarrow> string \<Rightarrow> error + pyfloat" where
  "series_get cols r cat = (if cat \<in> set cols then Inr (stat r cat) else Inl (KeyError cat))"

section \<open>create\_matchup\_comparison\<close>

text \<open>
  Lines 120-127: the loop over \<open>nonTOs\<close>, threading \<open>(curScore, vsScore, tieScore)\<close>.
\<close>

fun score_nonTOs ::
  "string list \<Rightarrow> 'a team_row_scheme \<Rightarrow> 'a team_row_scheme \<Rightarrow> string list
     \<Rightarrow> nat \<times> nat \<times> nat \<Rightarrow> error + nat \<times> nat \<times> nat" where
  "score_nonTOs cols curTeam vsTeam [] s = Inr s"
| "score_nonTOs cols curTeam vsTeam (cat # cats) (curScore, vsScore, tieScore) =
     (case series_get cols curTeam cat of
        Inl e \<Rightarrow> Inl e
      | Inr a \<Rightarrow>
         (case series_get cols vsTeam cat of
            Inl e \<Rightarrow> Inl e
          | Inr b \<Rightarrow>
              score_nonTOs cols curTeam vsTeam cats
                (if py_gt a b then (curScore + 1, vsScore, tieScore)
                 else if py_lt a b then (curScore, vsScore + 1, tieScore)
                 else (curScore, vsScore, tieScore + 1))))"

text \<open>Lines 128-134: the turnover category, compared the other way round.\<close>

fun score_TOs ::
  "string list \<Rightarrow> 'a team_row_scheme \<Rightarrow> 'a team_row_scheme \<Rightarrow> string
     \<Rightarrow> nat \<times> nat \<times> nat \<Rightarrow> error + nat \<times> nat \<times> nat" where
  "score_TOs cols curTeam vsTeam TOs (curScore, vsScore, tieScore) =
     (case series_get cols curTeam TOs of
        Inl e \<Rightarrow> Inl e
      | Inr a \<Rightarrow>
         (case series_get cols vsTeam TOs of
            Inl e \<Rightarrow> Inl e
          | Inr b \<Rightarrow>
              Inr (if py_lt a b then (curScore + 1, vsScore, tieScore)
                   else if py_gt a b then (curScore, vsScore + 1, tieScore)
                   else (curScore, vsScore, tieScore + 1))))"

text \<open>Lines 117-134: the three counts of one pair of rows.\<close>

definition category_scores ::
  "string list \<Rightarrow> string list \<Rightarrow> string \<Rightarrow> 'a team_row_scheme \<Rightarrow> 'a team_row_scheme
     \<Rightarrow> error + nat \<times> nat \<times> nat" where
  "category_scores cols nonTOs TOs curTeam vsTeam =
     (case score_nonTOs cols curTeam vsTeam nonTOs (0, 0, 0) of
        Inl e \<Rightarrow> Inl e
      | Inr s \<Rightarrow> score_TOs cols curTeam vsTeam TOs s)"

text \<open>Lines 135-138: the score string.\<close>

definition score_string :: "nat \<times> nat \<times> nat \<Rightarrow> string" where
  "score_string s =
     (case s of (curScore, vsScore, tieScore) \<Rightarrow>
        if tieScore > 0
        then str_nat curScore @ ''-'' @ str_nat vsScore @ ''-'' @ str_nat tieScore
        else str_nat curScore @ ''-'' @ str_nat vsScore)"

text \<open>Lines 139-145: the entry of \<open>matchupWinner\<close>.\<close>

definition winner_value :: "nat \<times> nat \<times> nat \<Rightarrow> real" where
  "winner_value s =
     (case s of (curScore, vsScore, tieScore) \<Rightarrow>
        if curScore > vsScore then 1
        else if vsScore > curScore then 0
        else 1 / 2)"

text \<open>A \<open>for\<close> loop whose body may raise: the first exception ends the loop.\<close>

fun mapM :: "('a \<Rightarrow> error + 'b) \<Rightarrow> 'a list \<Rightarrow> error + 'b list" where
  "mapM f [] = Inr []"
| "mapM f (x # xs) =
     (case f x of
        Inl e \<Rightarrow> Inl e
      | Inr y \<Rightarrow> (case mapM f xs of Inl e \<Rightarrow> Inl e | Inr ys \<Rightarrow> Inr (y # ys)))"

text \<open>
  Lines 112-145: the nested loop over \<open>range(df.shape[0])\<close>. Entry \<open>[i, j]\<close> of the
  result holds the counts of row \<open>i\<close> against row \<open>j\<close>; \<open>matchupScore\<close> and
  \<open>matchupWinner\<close> are written from them cell by cell.
\<close>

definition compare_all ::
  "string list \<Rightarrow> string list \<Rightarrow> string \<Rightarrow> 'a team_row_scheme list
     \<Rightarrow> error + (nat \<times> nat \<times> nat) list list" where
  "compare_all cols nonTOs TOs rs =
     mapM (\<lambda>i. mapM (\<lambda>j. category_scores cols nonTOs TOs (rs ! i) (rs ! j))
                  [0..<length rs])
          [0..<length rs]"

definition matchupScore_loop :: "(nat \<times> nat \<times> nat) list list \<Rightarrow> string list list" where
  "matchupScore_loop M = map (map score_string) M"

definition matchupWinner_loop :: "(nat \<times> nat \<times> nat) list list \<Rightarrow> real list list" where
  "matchupWinner_loop M = map (map winner_value) M"

text \<open>numpy: \<open>A[np.diag_indices(n)] = v\<close> on an \<open>n\<close> by \<open>n\<close> array.\<close>

definition set_diag :: "'a list list \<Rightarrow> 'a \<Rightarrow> 'a list list" where
  "set_diag A v = map (\<lambda>i. (A ! i)[i := v]) [0..<length A]"

text \<open>numpy: \<open>A[mask(A)] = v\<close>, \<open>A.sum(axis=1)\<close>, \<open>1 - A\<close>.\<close>

definition mask_assign :: "(real \<Rightarrow> bool) \<Rightarrow> real \<Rightarrow> real list list \<Rightarrow> real list list" where
  "mask_assign P v A = map (map (\<lambda>x. if P x then v else x)) A"

definition sum_axis1 :: "real list list \<Rightarrow> real list" where
  "sum_axis1 A = map sum_list A"

definition one_minus :: "real list list \<Rightarrow> real list list" where
  "one_minus A = map (map (\<lambda>x. 1 - x)) A"

text \<open>Lines 151-154, 157-159 and 161-164, on the matrix with its diagonal zeroed.\<close>

definition totalWins_col :: "real list list \<Rightarrow> real list" where
  "totalWins_col W = sum_axis1 (mask_assign (\<lambda>x. x \<noteq> 1) 0 W)"

definition totalLosses_col :: "real list list \<Rightarrow> real list" where
  "totalLosses_col W = map (\<lambda>s. s - 1) (sum_axis1 (one_minus (mask_assign (\<lambda>x. x \<noteq> 0) 1 W)))"

definition totalTies_col :: "real list list \<Rightarrow> real list" where
  "totalTies_col W =
     sum_axis1 (mask_assign (\<lambda>x. x = 1 / 2) 1 (mask_assign (\<lambda>x. x \<noteq> 1 / 2) 0 W))"

text \<open>
  \<open>fix_names_teams\<close> keeps the characters that are alphanumeric, a space or a hyphen.
  Python's \<open>str.isalnum\<close> is a table of the Unicode database; it is the parameter
  \<open>isalnum\<close>.
\<close>

definition keep_char :: "(char \<Rightarrow> bool) \<Rightarrow> char \<Rightarrow> bool" where
  "keep_char isalnum c = (isalnum c \<or> c = CHR '' '' \<or> c = CHR ''-'')"

definition fix_names_teams ::
  "(char \<Rightarrow> bool) \<Rightarrow> ('a team_row_scheme) dataframe \<Rightarrow> ('a team_row_scheme) dataframe" where
  "fix_names_teams isalnum df =
     df\<lparr>rows := map (\<lambda>r. r\<lparr>manager := filter (keep_char isalnum) (manager r),
                            teamName := filter (keep_char isalnum) (teamName r)\<rparr>)
                    (rows df)\<rparr>"

text \<open>Lines 154, 159 and 164: the three new columns, assigned by position.\<close>

definition add_totals ::
  "team_row dataframe \<Rightarrow> real list \<Rightarrow> real list \<Rightarrow> real list \<Rightarrow> team_row_totals dataframe" where
  "add_totals df ws ls ts =
     \<lparr>columns = columns df,
      rows = map (\<lambda>i. \<lparr>manager = manager (rows df ! i), teamName = teamName (rows df ! i),
                      matchupNumber = matchupNumber (rows df ! i), stat = stat (rows df ! i),
                      totalWins = ws ! i, totalLosses = ls ! i, totalTies = ts ! i\<rparr>)
                 [0..<length (rows df)]\<rparr>"

text \<open>
  What \<open>visualize\<close> writes, outside the repository: the directory of the week, the
  CSV file, the table image and the heat map (lines 175-194), and the finished chart (lines
  202-205). Each is \<open>None\<close> when nothing is raised.
\<close>

record matchup_files =
  save_totals ::
    "team_row_totals dataframe \<Rightarrow> string list list \<Rightarrow> real list list \<Rightarrow> error option"
  save_chart :: "(nat \<times> nat) list \<Rightarrow> error option"

text \<open>
  Lines 198-201: the blue boxes. \<open>i,j = df[df['matchupNumber']==m].index\<close> raises
  \<open>ValueError\<close> unless exactly two rows carry the matchup number.
\<close>

definition matchup_boxes :: "'a team_row_scheme list \<Rightarrow> error + (nat \<times> nat) list" where
  "matchup_boxes rs =
     mapM (\<lambda>m. case filter (\<lambda>i. matchupNumber (rs ! i) = m) [0..<length rs] of
                 [] \<Rightarrow> Inl (ValueError ''not enough values to unpack (expected 2, got 0)'')
               | [i] \<Rightarrow> Inl (ValueError ''not enough values to unpack (expected 2, got 1)'')
               | [i, j] \<Rightarrow> Inr (i, j)
               | _ \<Rightarrow> Inl (ValueError ''too many values to unpack (expected 2)''))
          (remdups (map matchupNumber rs))"

text \<open>
  The function. \<open>statCats\<close> are the display names \<open>league.stat_categories()\<close> returns;
  \<open>statCats[-1]\<close> raises \<open>IndexError\<close> on an empty list. The three results are
  computed before anything is written. The result is \<open>(df, matchupScore, matchupWinner)\<close>.
\<close>

definition create_matchup_comparison ::
  "(char \<Rightarrow> bool) \<Rightarrow> matchup_files \<Rightarrow> string list \<Rightarrow> team_row dataframe \<Rightarrow> bool
     \<Rightarrow> error + team_row_totals dataframe \<times> string list list \<times> real list list" where
  "create_matchup_comparison isalnum files statCats df visualize =
     (if statCats = [] then Inl IndexError
      else
        let nonTOs = butlast statCats; TOs = last statCats in
        case compare_all (columns df) nonTOs TOs (rows df) of
          Inl e \<Rightarrow> Inl e
        | Inr M \<Rightarrow>
            let matchupScore = matchupScore_loop M;
                matchupWinner = set_diag (matchupWinner_loop M) 0;
                df1 = add_totals df (totalWins_col matchupWinner)
                        (totalLosses_col matchupWinner) (totalTies_col matchupWinner);
                matchupWinner = set_diag matchupWinner (- 1);
                matchupScore = set_diag matchupScore ''N/A'';
                df2 = fix_names_teams isalnum df1
            in
            if visualize then
              (case save_totals files df2 matchupScore matchupWinner of
                 Some e \<Rightarrow> Inl e
               | None \<Rightarrow>
                  (case matchup_boxes (rows df2) of
                     Inl e \<Rightarrow> Inl e
                   | Inr boxes \<Rightarrow>
                      (case save_chart files boxes of
                         Some e \<Rightarrow> Inl e
                       | None \<Rightarrow> Inr (df2, matchupScore, matchupWinner))))
            else Inr (df2, matchupScore, matchupWinner))"

section \<open>The counts, stated without the loop\<close>

text \<open>
  The number of categories of \<open>cats\<close> in which the two rows stand in relation
  \<open>rel\<close>. A row wins a category other than the last by the larger value and the last
  one (turnovers) by the smaller value.
\<close>

definition count_cats ::
  "(pyfloat \<Rightarrow> pyfloat \<Rightarrow> bool) \<Rightarrow> string list \<Rightarrow> 'a team_row_scheme \<Rightarrow> 'a team_row_scheme
     \<Rightarrow> nat" where
  "count_cats rel cats curTeam vsTeam =
     length (filter (\<lambda>cat. rel (stat curTeam cat) (stat vsTeam cat)) cats)"

definition py_tie :: "pyfloat \<Rightarrow> pyfloat \<Rightarrow> bool" where
  "py_tie a b = (\<not> py_gt a b \<and> \<not> py_lt a b)"

definition category_wins ::
  "string list \<Rightarrow> 'a team_row_scheme \<Rightarrow> 'a team_row_scheme \<Rightarrow> nat" where
  "category_wins statCats curTeam vsTeam =
     count_cats py_gt (butlast statCats) curTeam vsTeam
     + count_cats py_lt [last statCats] curTeam vsTeam"

definition category_losses ::
  "string list \<Rightarrow> 'a team_row_scheme \<Rightarrow> 'a team_row_scheme \<Rightarrow> nat" where
  "category_losses statCats curTeam vsTeam =
     count_cats py_lt (butlast statCats) curTeam vsTeam
     + count_cats py_gt [last statCats] curTeam vsTeam"

definition category_ties ::
  "string list \<Rightarrow> 'a team_row_scheme \<Rightarrow> 'a team_row_scheme \<Rightarrow> nat" where
  "category_ties statCats curTeam vsTeam = count_cats py_tie statCats curTeam vsTeam"

section \<open>A week of three teams\<close>

text \<open>A frame as \<open>pd.DataFrame\<close> builds it from dicts: a key a dict lacks is \<open>NaN\<close>.\<close>

definition mk_stats :: "(string \<times> real) list \<Rightarrow> string \<Rightarrow> pyfloat" where
  "mk_stats kvs cat = (case map_of kvs cat of None \<Rightarrow> NaN | Some v \<Rightarrow> Num v)"

definition ex_statCats :: "string list" where
  "ex_statCats = [''PTS'', ''REB'', ''TO'']"

definition ex_rows :: "team_row list" where
  "ex_rows =
     [\<lparr>manager = ''Ann'', teamName = ''Team A!'', matchupNumber = ''0'',
       stat = mk_stats [(''PTS'', 100), (''REB'', 40), (''TO'', 10)]\<rparr>,
      \<lparr>manager = ''Bob'', teamName = ''B-Team'', matchupNumber = ''0'',
       stat = mk_stats [(''PTS'', 90), (''REB'', 40), (''TO'', 12)]\<rparr>,
      \<lparr>manager = ''Cy'', teamName = ''C Team'', matchupNumber = ''1'',
       stat = mk_stats [(''PTS'', 110), (''REB'', 50), (''TO'', 12)]\<rparr>]"

definition ex_df :: "team_row dataframe" where
  "ex_df = \<lparr>columns = ex_statCats, rows = ex_rows\<rparr>"

text \<open>Writing that raises nothing, and \<open>str.isalnum\<close> on ASCII.\<close>

definition no_failure :: matchup_files where
  "no_failure = \<lparr>save_totals = (\<lambda>df matchupScore matchupWinner. None),
                  save_chart = (\<lambda>boxes. None)\<rparr>"

definition ascii_isalnum :: "char \<Rightarrow> bool" where
  "ascii_isalnum c =
     (let n = of_char c :: nat
      in (48 \<le> n \<and> n \<le> 57) \<or> (65 \<le> n \<and> n \<le> 90) \<or> (97 \<le> n \<and> n \<le> 122))"

section \<open>refresh\_oauth\_file\<close>

text \<open>
  \<open>str.rfind\<close> of a single character: the index of its last occurrence, or \<open>-1\<close>.
\<close>

fun rfind_from :: "char \<Rightarrow> string \<Rightarrow> nat \<Rightarrow> int \<Rightarrow> int" where
  "rfind_from c [] i r = r"
| "rfind_from c (x # xs) i r = rfind_from c xs (i + 1) (if x = c then int i else r)"

definition rfind :: "char \<Rightarrow> string \<Rightarrow> int" where
  "rfind c p = rfind_from c p 0 (- 1)"

text \<open>
  \<open>os.path.splitext\<close> (posixpath): the extension runs from the last dot of the last
  path component to the end, unless that component has only dots before it.
\<close>

definition splitext :: "string \<Rightarrow> string \<times> string" where
  "splitext p =
     (let sepIndex = rfind (CHR ''/'') p;
          dotIndex = rfind (CHR ''.'') p
      in if dotIndex > sepIndex \<and>
            list_ex (\<lambda>filenameIndex. p ! filenameIndex \<noteq> CHR ''.'')
              [nat (sepIndex + 1)..<nat dotIndex]
         then (take (nat dotIndex) p, drop (nat dotIndex) p)
         else (p, []))"

text \<open>
  What the function calls outside the repository: the two parsers and the two printers of
  the credential file, the OAuth client and the fantasy API. A parsed credential file is a
  dict from keys to values of some type \<open>'v\<close>.
\<close>

record ('v, 'sc, 'gm, 'lg) services =
  json_load :: "string \<Rightarrow> error + (string \<rightharpoonup> 'v)"
  yaml_safe_load :: "string \<Rightarrow> error + (string \<rightharpoonup> 'v)"
  json_dump :: "(string \<times> 'v) list \<Rightarrow> string"
  yaml_dump :: "(string \<times> 'v) list \<Rightarrow> string"
  OAuth2 :: "(string \<rightharpoonup> string) \<Rightarrow> string \<Rightarrow> error + 'sc"
  Game :: "'sc \<Rightarrow> string \<Rightarrow> error + 'gm"
  league_ids :: "'gm \<Rightarrow> int \<Rightarrow> error + string list"
  to_league :: "'gm \<Rightarrow> string \<Rightarrow> error + 'lg"

text \<open>The file system: the text of every file that exists.\<close>

type_synonym files = "string \<rightharpoonup> string"

definition open_read :: "files \<Rightarrow> string \<Rightarrow> error + string" where
  "open_read fs path = (case fs path of None \<Rightarrow> Inl (FileNotFoundError path) | Some txt \<Rightarrow> Inr txt)"

definition dict_get :: "(string \<rightharpoonup> 'v) \<Rightarrow> string \<Rightarrow> error + 'v" where
  "dict_get d k = (case d k of None \<Rightarrow> Inl (KeyError k) | Some v \<Rightarrow> Inr v)"

text \<open>Lines 444-456: authentication and the league of the year.\<close>

definition connect ::
  "('v, 'sc, 'gm, 'lg) services \<Rightarrow> files \<Rightarrow> string \<Rightarrow> string \<Rightarrow> int
     \<Rightarrow> error + 'sc \<times> 'gm \<times> 'lg" where
  "connect srv fs oauthFile sport year =
     (case OAuth2 srv fs oauthFile of
        Inl e \<Rightarrow> Inl e
      | Inr sc \<Rightarrow>
         (case Game srv sc sport of
            Inl e \<Rightarrow> Inl e
          | Inr gm \<Rightarrow>
             (case league_ids srv gm year of
                Inl e \<Rightarrow> Inl e
              | Inr league \<Rightarrow>
                 (case league of
                    [] \<Rightarrow> Inl IndexError
                  | l0 # _ \<Rightarrow>
                     (case to_league srv gm l0 of
                        Inl e \<Rightarrow> Inl e
                      | Inr currentLeague \<Rightarrow> Inr (sc, gm, currentLeague))))))"

text \<open>Lines 418-427: the file is read with the loader its extension selects.\<close>

definition load_oauthKeys ::
  "('v, 'sc, 'gm, 'lg) services \<Rightarrow> files \<Rightarrow> string \<Rightarrow> string \<Rightarrow> error + (string \<rightharpoonup> 'v)" where
  "load_oauthKeys srv fs oauthFile ext =
     (if ext = ''.json'' then
        (case open_read fs oauthFile of Inl e \<Rightarrow> Inl e | Inr f \<Rightarrow> json_load srv f)
      else if ext = ''.yaml'' then
        (case open_read fs oauthFile of Inl e \<Rightarrow> Inl e | Inr f \<Rightarrow> yaml_safe_load srv f)
      else Inl (ValueError ''Wrong file format for yahoo oauth keys. Please use json or yaml''))"

text \<open>
  Lines 438-442: the new file. Opening for writing creates an empty file; a dump follows
  for the two known extensions.
\<close>

definition write_newKeys ::
  "('v, 'sc, 'gm, 'lg) services \<Rightarrow> string \<Rightarrow> (string \<times> 'v) list \<Rightarrow> string" where
  "write_newKeys srv ext newKeys =
     (if ext = ''.json'' then json_dump srv newKeys
      else if ext = ''.yaml'' then yaml_dump srv newKeys
      else [])"

text \<open>
  The function. Its result is \<open>(sc, gm, currentLeague)\<close>; the file system it leaves
  behind is the one handed to \<open>OAuth2\<close>.
\<close>

definition refresh_oauth_file ::
  "('v, 'sc, 'gm, 'lg) services \<Rightarrow> files \<Rightarrow> string \<Rightarrow> string \<Rightarrow> int \<Rightarrow> bool
     \<Rightarrow> error + 'sc \<times> 'gm \<times> 'lg" where
  "refresh_oauth_file srv fs oauthFile sport year refresh =
     (if refresh then
        let ext = snd (splitext oauthFile) in
        case load_oauthKeys srv fs oauthFile ext of
          Inl e \<Rightarrow> Inl e
        | Inr oauthKeys \<Rightarrow>
           (case dict_get oauthKeys ''consumer_key'' of
              Inl e \<Rightarrow> Inl e
            | Inr consumer_key \<Rightarrow>
               (case dict_get oauthKeys ''consumer_secret'' of
                  Inl e \<Rightarrow> Inl e
                | Inr consumer_secret \<Rightarrow>
                    let newKeys = [(''consumer_key'', consumer_key),
                                   (''consumer_secret'', consumer_secret)];
                        fs1 = fs(oauthFile := None);
                        fs2 = fs1(oauthFile \<mapsto> write_newKeys srv ext newKeys)
                    in connect srv fs2 oauthFile sport year))
      else connect srv fs oauthFile sport year)"

text \<open>Services that always succeed, for a run of the function.\<close>

definition ex_services :: "(string, unit, unit, unit) services" where
  "ex_services =
     \<lparr>json_load = (\<lambda>txt. Inr [''consumer_key'' \<mapsto> ''k'', ''consumer_secret'' \<mapsto> ''s'']),
      yaml_safe_load = (\<lambda>txt. Inr [''consumer_key'' \<mapsto> ''k'', ''consumer_secret'' \<mapsto> ''s'']),
      json_dump = (\<lambda>d. ''{}''), yaml_dump = (\<lambda>d. ''{}''),
      OAuth2 = (\<lambda>fs path. Inr ()), Game = (\<lambda>sc sport. Inr ()),
      league_ids = (\<lambda>gm year. Inr [''410.l.1'']), to_league = (\<lambda>gm l. Inr ())\<rparr>"

definition ex_files :: files where
  "ex_files = [''yahoo_oauth.txt'' \<mapsto> ''x'', ''yahoo_oauth.json'' \<mapsto> ''y'']"

section \<open>The days of the week walked by the main script\<close>

text \<open>
  A \<open>datetime.date\<close> is its proleptic Gregorian ordinal (\<open>date.toordinal()\<close>), so that
  adding \<open>timedelta(days=d)\<close> adds \<open>d\<close> and \<open>(endDate - startDate).days\<close> is the
  difference. A \<open>datetime.datetime\<close> is a date with a time of day.
\<close>

record datetime =
  date_ordinal :: int
  hour :: nat
  minute :: nat
  second :: nat

definition combine :: "int \<Rightarrow> nat \<times> nat \<times> nat \<Rightarrow> datetime" where
  "combine d t = (case t of (h, m, s) \<Rightarrow> \<lparr>date_ordinal = d, hour = h, minute = m, second = s\<rparr>)"

definition py_range :: "int \<Rightarrow> int list" where
  "py_range n = map int [0..<nat n]"

text \<open>Lines 481-485.\<close>

definition dateRanges :: "int \<Rightarrow> int \<Rightarrow> datetime list" where
  "dateRanges startDate endDate =
     (let dateDiff_days = endDate - startDate
      in map (\<lambda>d. combine (startDate + d) (23, 59, 59)) (py_range (dateDiff_days + 2)))"

text \<open>Line 487.\<close>

definition previousSunday :: "int \<Rightarrow> datetime" where
  "previousSunday startDate = combine (startDate - 1) (23, 59, 59)"

section \<open>max\_min\_stats\<close>

text \<open>
  pandas: \<open>DataFrame.max()\<close> and \<open>DataFrame.min()\<close> reduce each column and skip
  \<open>NaN\<close>; a column with no number in it (an empty frame too) gives \<open>NaN\<close>.
  \<open>Series.iteritems\<close> then yields the labels with their values, in the order of
  \<open>statCats\<close>.
\<close>

fun nan_max :: "pyfloat \<Rightarrow> pyfloat \<Rightarrow> pyfloat" where
  "nan_max NaN y = y"
| "nan_max (Num a) NaN = Num a"
| "nan_max (Num a) (Num b) = Num (max a b)"

fun nan_min :: "pyfloat \<Rightarrow> pyfloat \<Rightarrow> pyfloat" where
  "nan_min NaN y = y"
| "nan_min (Num a) NaN = Num a"
| "nan_min (Num a) (Num b) = Num (min a b)"

definition column_max :: "pyfloat list \<Rightarrow> pyfloat" where
  "column_max xs = fold nan_max xs NaN"

definition column_min :: "pyfloat list \<Rightarrow> pyfloat" where
  "column_min xs = fold nan_min xs NaN"

text \<open>A row of \<open>maxStatDF\<close> or \<open>minStatDF\<close>: the columns \<open>Stat\<close>, \<open>Value\<close>, \<open>Manager(s)\<close>.\<close>

record stat_record =
  Stat :: string
  Value :: pyfloat
  Managers :: string

text \<open>
  Lines 299-305 and 312-318: for each reduced column, the managers of the rows whose cell
  equals the value, joined by a comma and a space.
\<close>

definition stat_list ::
  "(pyfloat list \<Rightarrow> pyfloat) \<Rightarrow> string list \<Rightarrow> 'a team_row_scheme dataframe \<Rightarrow> stat_record list" where
  "stat_list reduce statCats df =
     map (\<lambda>st.
            let val = reduce (map (\<lambda>r. stat r st) (rows df));
                managers = map manager (filter (\<lambda>r. py_eq (stat r st) val) (rows df))
            in \<lparr>Stat = st, Value = val, Managers = join '', '' managers\<rparr>)
         statCats"

text \<open>
  What the function writes, outside the repository: the directory of the week (lines
  295-296), then the two CSV files and, with \<open>visualize\<close>, the images and bar charts
  (lines 309 and 322-355). Each is \<open>None\<close> when nothing is raised.
\<close>

record stats_files =
  save_dir :: "error option"
  save_stats :: "stat_record list \<Rightarrow> stat_record list \<Rightarrow> bool \<Rightarrow> error option"

text \<open>
  The function. \<open>df[statCats]\<close> raises \<open>KeyError\<close> when a label is not a column (the
  model names the first such label); the labels are taken to differ from each other, as
  the display names of a league do. The result is \<open>(maxStatDF, minStatDF)\<close>.
\<close>

definition max_min_stats ::
  "stats_files \<Rightarrow> string list \<Rightarrow> 'a team_row_scheme dataframe \<Rightarrow> bool
     \<Rightarrow> error + stat_record list \<times> stat_record list" where
  "max_min_stats files origStatCats df visualize =
     (let statCats = origStatCats @ [''FGM'', ''FGA'', ''FTM'', ''FTA''] in
      case save_dir files of
        Some e \<Rightarrow> Inl e
      | None \<Rightarrow>
         (case filter (\<lambda>c. c \<notin> set (columns df)) statCats of
            c # _ \<Rightarrow> Inl (KeyError c)
          | [] \<Rightarrow>
              let maxStatDF = stat_list column_max statCats df;
                  minStatDF = stat_list column_min statCats df
              in case save_stats files maxStatDF minStatDF visualize of
                   Some e \<Rightarrow> Inl e
                 | None \<Rightarrow> Inr (maxStatDF, minStatDF)))"

definition files_written :: stats_files where
  "files_written = \<lparr>save_dir = None, save_stats = (\<lambda>maxStatDF minStatDF visualize. None)\<rparr>"

definition ex_shooting_df :: "team_row dataframe" where
  "ex_shooting_df =
     \<lparr>columns = [''PTS'', ''FGM'', ''FGA'', ''FTM'', ''FTA''],
      rows =
        [\<lparr>manager = ''Ann'', teamName = ''A'', matchupNumber = ''0'',
          stat = mk_stats [(''PTS'', 110), (''FGM'', 40), (''FGA'', 90), (''FTM'', 20), (''FTA'', 25)]\<rparr>,
         \<lparr>manager = ''Bob'', teamName = ''B'', matchupNumber = ''0'',
          stat = mk_stats [(''PTS'', 110), (''FGM'', 42), (''FGA'', 80), (''FTM'', 15), (''FTA'', 25)]\<rparr>,
         \<lparr>manager = ''Cy'', teamName = ''C'', matchupNumber = ''1'',
          stat = mk_stats [(''PTS'', 90), (''FGM'', 35), (''FGA'', 85), (''FTM'', 15), (''FTA'', 30)]\<rparr>]\<rparr>"

section \<open>The weekly accumulation loop of the main script\<close>

text \<open>
  A cell of the table \<open>league.player_stats\<close> returns: a number, or \<open>'-'\<close> when the
  player has no value for the category that day. Line 525 replaces \<open>'-'\<close> by 0. A
  number is a Python float, here the real number the float denotes. Python's \<open>+\<close> on
  floats, the exact sum rounded to a float, is the parameter \<open>float_add\<close> of what
  follows.
\<close>

datatype cell = Dash | Val real

fun cell_value :: "cell \<Rightarrow> real" where
  "cell_value Dash = 0"
| "cell_value (Val v) = v"

record player_stat =
  stats_player_id :: nat
  stat_cell :: "string \<Rightarrow> cell"

text \<open>
  A row of a roster frame: the player and the stat columns lines 492, 503 and 511 add.
  The other columns of a roster (name, positions) are never read. A row of
  \<open>rosterTotals\<close> has the two flags as well.
\<close>

record roster_row =
  player_id :: nat
  stat_total :: "string \<Rightarrow> real"

record totals_row = roster_row +
  dropped :: bool
  added :: bool

text \<open>
  The two calls into the fantasy API: the roster of the team with index \<open>idx\<close> of
  \<open>teamDF\<close> on a day (the player ids, in the order returned), and the stat lines of a
  list of players on a day, each with a cell for every stat category. These are the
  answers of the API during a run: a call that raises ends the script there.
\<close>

record fantasy_api =
  roster :: "nat \<Rightarrow> datetime \<Rightarrow> nat list"
  player_stats :: "nat list \<Rightarrow> datetime \<Rightarrow> player_stat list"

text \<open>\<open>pd.DataFrame(teamObject.roster(day))\<close> with the stat columns set to 0.\<close>

definition roster_frame :: "nat list \<Rightarrow> roster_row list" where
  "roster_frame ids = map (\<lambda>p. \<lparr>player_id = p, stat_total = (\<lambda>cat. 0)\<rparr>) ids"

text \<open>Lines 501-505: the frame of totals of a team, made from the roster of the first day.\<close>

definition totals_frame :: "nat list \<Rightarrow> totals_row list" where
  "totals_frame ids =
     map (\<lambda>p. \<lparr>player_id = p, stat_total = (\<lambda>cat. 0), dropped = False, added = False\<rparr>) ids"

text \<open>Line 523: the players who had a game, those whose stat entries are not all \<open>'-'\<close>.\<close>

definition all_dash :: "string list \<Rightarrow> player_stat \<Rightarrow> bool" where
  "all_dash statCats l = list_all (\<lambda>cat. stat_cell l cat = Dash) statCats"

definition had_game :: "string list \<Rightarrow> player_stat list \<Rightarrow> player_stat list" where
  "had_game statCats playerStats = filter (\<lambda>l. \<not> all_dash statCats l) playerStats"

text \<open>
  \<open>playerStats.loc[playerStats['player_id']==pID, statCats].values\<close> after line 525: one
  row of numbers per stat line of the player.
\<close>

definition stat_values :: "player_stat list \<Rightarrow> nat \<Rightarrow> (string \<Rightarrow> real) list" where
  "stat_values playerStats pID =
     map (\<lambda>l cat. cell_value (stat_cell l cat))
       (filter (\<lambda>l. stats_player_id l = pID) playerStats)"

text \<open>
  Combining an array of \<open>m\<close> rows with \<open>k\<close> selected rows: the shapes must agree, or
  the array has one row, which then goes to every selected row. Otherwise pandas raises
  \<open>ValueError\<close> with the message \<open>msg\<close>.
\<close>

definition broadcast_rows :: "string \<Rightarrow> nat \<Rightarrow> 'a list \<Rightarrow> error + 'a list" where
  "broadcast_rows msg k vals =
     (if length vals = k then Inr vals
      else if length vals = 1 then Inr (replicate k (hd vals))
      else Inl (ValueError msg))"

text \<open>The message of \<open>frame + array\<close> (line 541) and of \<open>frame = array\<close> (line 534).\<close>

definition shape_string :: "nat \<Rightarrow> nat \<Rightarrow> string \<Rightarrow> string" where
  "shape_string nrows ncols sep = ''('' @ str_nat nrows @ sep @ str_nat ncols @ '')''"

definition coerce_message :: "nat \<Rightarrow> nat \<Rightarrow> nat \<Rightarrow> string" where
  "coerce_message k m ncols =
     ''Unable to coerce to DataFrame, shape must be '' @ shape_string k ncols '', ''
       @ '': given '' @ shape_string m ncols '', ''"

definition mismatch_message :: "nat \<Rightarrow> nat \<Rightarrow> nat \<Rightarrow> string" where
  "mismatch_message k m ncols =
     ''shape mismatch: value array of shape '' @ shape_string m ncols '',''
       @ '' could not be broadcast to indexing result of shape '' @ shape_string k ncols '',''"

text \<open>The rows of player \<open>pID\<close> get the rows of \<open>vals\<close> added, one each, in order.\<close>

fun add_values ::
  "(real \<Rightarrow> real \<Rightarrow> real) \<Rightarrow> string list \<Rightarrow> nat \<Rightarrow> (string \<Rightarrow> real) list
     \<Rightarrow> 'a roster_row_scheme list \<Rightarrow> 'a roster_row_scheme list" where
  "add_values float_add statCats pID vals [] = []"
| "add_values float_add statCats pID vals (r # rs) =
     (if player_id r = pID then
        (case vals of
           [] \<Rightarrow> r # rs
         | v # vals' \<Rightarrow>
             r\<lparr>stat_total := (\<lambda>cat. if cat \<in> set statCats
                                     then float_add (stat_total r cat) (v cat)
                                     else stat_total r cat)\<rparr>
               # add_values float_add statCats pID vals' rs)
      else r # add_values float_add statCats pID vals rs)"

text \<open>Lines 541 and 549: \<open>frame.loc[frame['player_id']==pID, statCats] += values\<close>.\<close>

definition add_player_stats ::
  "(real \<Rightarrow> real \<Rightarrow> real) \<Rightarrow> string list \<Rightarrow> player_stat list \<Rightarrow> nat
     \<Rightarrow> 'a roster_row_scheme list \<Rightarrow> error + 'a roster_row_scheme list" where
  "add_player_stats float_add statCats playerStats pID frame =
     (let k = length (filter (\<lambda>r. player_id r = pID) frame);
          values = stat_values playerStats pID
      in case broadcast_rows (coerce_message k (length values) (length statCats)) k values of
           Inl e \<Rightarrow> Inl e
         | Inr vals \<Rightarrow> Inr (add_values float_add statCats pID vals frame))"

text \<open>
  Lines 534-538: a player added during the week. The stats of the day are written into
  the player's rows of the roster of the day, and the first of these rows, flagged as
  added, is appended to the totals.
\<close>

definition add_new_player ::
  "string list \<Rightarrow> player_stat list \<Rightarrow> nat list \<Rightarrow> nat \<Rightarrow> totals_row list
     \<Rightarrow> error + totals_row list" where
  "add_new_player statCats playerStats roster_ids pID rosterTotals =
     (let k = count_list roster_ids pID;
          values = stat_values playerStats pID
      in case broadcast_rows (mismatch_message k (length values) (length statCats)) k values of
           Inl e \<Rightarrow> Inl e
         | Inr vals \<Rightarrow>
            (case vals of
               [] \<Rightarrow> Inl IndexError
             | v # _ \<Rightarrow>
                 Inr (rosterTotals @
                      [\<lparr>player_id = pID,
                        stat_total = (\<lambda>cat. if cat \<in> set statCats then v cat else 0),
                        dropped = False, added = True\<rparr>])))"

text \<open>A loop that threads a state and may raise.\<close>

fun foldM :: "('a \<Rightarrow> 's \<Rightarrow> error + 's) \<Rightarrow> 'a list \<Rightarrow> 's \<Rightarrow> error + 's" where
  "foldM f [] s = Inr s"
| "foldM f (x # xs) s = (case f x s of Inl e \<Rightarrow> Inl e | Inr s' \<Rightarrow> foldM f xs s')"

text \<open>
  \<open>list(set(a) & set(b))\<close>: the common elements, each once. Python leaves the order of a
  set open; the model takes the order of \<open>a\<close>.
\<close>

definition common_ids :: "nat list \<Rightarrow> nat list \<Rightarrow> nat list" where
  "common_ids a b = remdups (filter (\<lambda>p. p \<in> set b) a)"

text \<open>Lines 528-541, for one team.\<close>

definition assign_current ::
  "(real \<Rightarrow> real \<Rightarrow> real) \<Rightarrow> string list \<Rightarrow> player_stat list \<Rightarrow> nat list
     \<Rightarrow> totals_row list \<Rightarrow> error + totals_row list" where
  "assign_current float_add statCats playerStats roster_ids rosterTotals =
     (let currentPlayers = common_ids (map stats_player_id playerStats) roster_ids in
      foldM (\<lambda>pID totals.
               if pID \<notin> set (map player_id totals)
               then add_new_player statCats playerStats roster_ids pID totals
               else add_player_stats float_add statCats playerStats pID totals)
            currentPlayers rosterTotals)"

text \<open>Lines 544-549, for one team.\<close>

definition assign_previous ::
  "(real \<Rightarrow> real \<Rightarrow> real) \<Rightarrow> string list \<Rightarrow> player_stat list \<Rightarrow> roster_row list
     \<Rightarrow> error + roster_row list" where
  "assign_previous float_add statCats playerStats previousRoster =
     (let previousPlayers =
            common_ids (map stats_player_id playerStats) (map player_id previousRoster) in
      foldM (add_player_stats float_add statCats playerStats) previousPlayers previousRoster)"

text \<open>Lines 553-557, for one team: the players of the totals who are not on today's roster.\<close>

definition mark_dropped :: "nat list \<Rightarrow> totals_row list \<Rightarrow> totals_row list" where
  "mark_dropped roster_ids rosterTotals =
     map (\<lambda>r. if player_id r \<notin> set roster_ids then r\<lparr>dropped := True\<rparr> else r) rosterTotals"

text \<open>
  Lines 513-519: the players whose stats are asked for, from the rosters of the day and
  those of the previous Sunday.
\<close>

definition startedPlayerIDs :: "nat list list \<Rightarrow> nat list list \<Rightarrow> nat list" where
  "startedPlayerIDs currentRoster sundayIDs =
     remdups (concat (map (\<lambda>idx. currentRoster ! idx @ sundayIDs ! idx)
                        [0..<length currentRoster]))"

text \<open>
  Lines 495-557: one day. The state is the two frame columns of \<open>teamDF\<close>, the rosters
  of the previous Sunday and \<open>rosterTotals\<close>, one frame per team. Iteration \<open>idx\<close> of
  the loops over the teams touches the frames of team \<open>idx\<close> only.

  A roster with no player is a frame with no column \<open>player_id\<close>, so lines 513 and 517
  raise \<open>KeyError\<close>; so does line 523 on an empty table of stats. The comparison with
  \<open>['-']*9\<close> raises \<open>ValueError\<close> unless there are nine categories.

  On the first day line 501 copies the series of rosters but not the frames in it, so
  \<open>rosterTotals\<close> and \<open>currentRoster\<close> hold the same frames that day. Nothing below
  depends on it: every player of the roster is then a player of the totals, and after
  line 511 only the ids of \<open>currentRoster\<close> are read.
\<close>

definition day_step ::
  "(real \<Rightarrow> real \<Rightarrow> real) \<Rightarrow> fantasy_api \<Rightarrow> string list \<Rightarrow> nat \<times> datetime
     \<Rightarrow> roster_row list list \<times> totals_row list list
     \<Rightarrow> error + roster_row list list \<times> totals_row list list" where
  "day_step float_add api statCats x s =
     (case x of (dIdx, currentDate) \<Rightarrow>
      case s of (sunday, rosterTotals0) \<Rightarrow>
        let teams = [0..<length sunday];
            currentRoster = map (\<lambda>idx. roster api idx currentDate) teams;
            rosterTotals = (if dIdx = 0 then map totals_frame currentRoster else rosterTotals0)
        in
        if list_ex (\<lambda>idx. currentRoster ! idx = [] \<or> sunday ! idx = []) teams
        then Inl (KeyError ''player_id'')
        else
          let playerStats =
                player_stats api (startedPlayerIDs currentRoster (map (map player_id) sunday))
                  currentDate
          in
          if playerStats = [] \<and> statCats \<noteq> [] then Inl (KeyError (hd statCats))
          else if length statCats \<noteq> 9
          then Inl (ValueError (''Unable to coerce to Series, length must be ''
                                  @ str_nat (length statCats) @ '': given 9''))
          else
            let playerStats = had_game statCats playerStats in
            case mapM (\<lambda>idx.
                   case assign_current float_add statCats playerStats (currentRoster ! idx)
                          (rosterTotals ! idx) of
                     Inl e \<Rightarrow> Inl e
                   | Inr totals \<Rightarrow>
                      (case assign_previous float_add statCats playerStats (sunday ! idx) of
                         Inl e \<Rightarrow> Inl e
                       | Inr previousRoster \<Rightarrow> Inr (previousRoster, totals)))
                 teams of
              Inl e \<Rightarrow> Inl e
            | Inr frames \<Rightarrow>
                Inr (map fst frames,
                     if dIdx = 6
                     then map (\<lambda>idx. mark_dropped (currentRoster ! idx) (snd (frames ! idx))) teams
                     else map snd frames))"

text \<open>
  Lines 480-557: the rosters of the previous Sunday for the \<open>nTeams\<close> rows of
  \<open>teamDF\<close>, then the loop over the days. Before the first day there is no column
  \<open>rosterTotals\<close>.
\<close>

definition weekly_loop ::
  "(real \<Rightarrow> real \<Rightarrow> real) \<Rightarrow> fantasy_api \<Rightarrow> string list \<Rightarrow> nat \<Rightarrow> int \<Rightarrow> int
     \<Rightarrow> error + roster_row list list \<times> totals_row list list" where
  "weekly_loop float_add api statCats nTeams startDate endDate =
     (let sunday = map (\<lambda>idx. roster_frame (roster api idx (previousSunday startDate)))
                     [0..<nTeams]
      in foldM (day_step float_add api statCats) (enumerate 0 (dateRanges startDate endDate))
           (sunday, []))"

text \<open>
  What the claim calls the player's stats of a day, for one category: a number for each
  stat line of the player in the table of that day, lines of \<open>'-'\<close> only left out and a
  \<open>'-'\<close> counted as 0. A day without a game gives no number.
\<close>

definition stats_of_day ::
  "fantasy_api \<Rightarrow> string list \<Rightarrow> nat \<Rightarrow> int \<Rightarrow> nat \<Rightarrow> datetime \<Rightarrow> string \<Rightarrow> real list" where
  "stats_of_day api statCats nTeams startDate p d cat =
     (let asked = startedPlayerIDs (map (\<lambda>idx. roster api idx d) [0..<nTeams])
                    (map (\<lambda>idx. roster api idx (previousSunday startDate)) [0..<nTeams])
      in map (\<lambda>l. cell_value (stat_cell l cat))
           (filter (\<lambda>l. stats_player_id l = p \<and> \<not> all_dash statCats l)
              (player_stats api asked d)))"


text \<open>
  A league of two teams over a week of one day, walked in two iterations. The stats of
  the examples are whole numbers, on which float addition is the exact sum.
\<close>

definition nine_cats :: "string list" where
  "nine_cats = [''FG%'', ''FT%'', ''3PTM'', ''PTS'', ''REB'', ''AST'', ''ST'', ''BLK'', ''TO'']"

definition mk_cells :: "(string \<times> real) list \<Rightarrow> string \<Rightarrow> cell" where
  "mk_cells kvs cat = (case map_of kvs cat of None \<Rightarrow> Dash | Some v \<Rightarrow> Val v)"

definition ex_api :: fantasy_api where
  "ex_api =
     \<lparr>roster = (\<lambda>idx d. if idx = 0 then [7, 8] else [9]),
      player_stats = (\<lambda>ids d.
        if date_ordinal d = 738095
        then [\<lparr>stats_player_id = 7, stat_cell = mk_cells [(''PTS'', 20), (''REB'', 5)]\<rparr>,
              \<lparr>stats_player_id = 8, stat_cell = mk_cells []\<rparr>,
              \<lparr>stats_player_id = 9, stat_cell = mk_cells [(''PTS'', 12)]\<rparr>]
        else [\<lparr>stats_player_id = 7, stat_cell = mk_cells [(''PTS'', 11), (''TO'', 3)]\<rparr>,
              \<lparr>stats_player_id = 8, stat_cell = mk_cells [(''AST'', 4)]\<rparr>,
              \<lparr>stats_player_id = 9, stat_cell = mk_cells []\<rparr>])\<rparr>"

text \<open>
  A league of one team whose only player scores on the day after the week ends
  (2021-11-08) and on no other day.
\<close>

definition ex_late_api :: fantasy_api where
  "ex_late_api =
     \<lparr>roster = (\<lambda>idx d. [7]),
      player_stats = (\<lambda>ids d.
        [\<lparr>stats_player_id = 7,
          stat_cell = (if date_ordinal d = 738102 then mk_cells [(''PTS'', 30)]
                       else mk_cells [])\<rparr>])\<rparr>"



section \<open>Properties of create\_matchup\_comparison\<close>

lemma py_gt_lt: "py_gt a b = py_lt b a"
  by (cases a; cases b) auto

lemma py_lt_asym: "py_lt a b \<Longrightarrow> \<not> py_lt b a"
  by (cases a; cases b) auto

lemma py_lt_irrefl: "\<not> py_lt a a"
  by (cases a) auto

lemma mapM_Inr_iff:
  "mapM f xs = Inr ys \<longleftrightarrow> length ys = length xs \<and> (\<forall>k<length xs. f (xs ! k) = Inr (ys ! k))"
proof (induction xs arbitrary: ys)
  case Nil
  then show ?case by auto
next
  case (Cons x xs)
  show ?case
  proof (cases ys)
    case Nil
    then show ?thesis by (auto split: sum.splits)
  next
    case (Cons y ys')
    then show ?thesis
      using Cons.IH [of ys'] by (auto split: sum.splits simp: nth_Cons' less_Suc_eq_0_disj)
  qed
qed

lemma mapM_total: "(\<forall>x\<in>set xs. \<exists>y. f x = Inr y) \<Longrightarrow> \<exists>ys. mapM f xs = Inr ys"
  by (induction xs) (auto split: sum.splits)

lemma score_nonTOs_Inr:
  "set cats \<subseteq> set cols \<Longrightarrow>
   score_nonTOs cols cur vs cats (c, v, t) =
     Inr (c + count_cats py_gt cats cur vs, v + count_cats py_lt cats cur vs,
          t + count_cats py_tie cats cur vs)"
proof (induction cats arbitrary: c v t)
  case Nil
  then show ?case by (simp add: count_cats_def)
next
  case (Cons cat cats)
  then show ?case
    using py_lt_asym [of "stat cur cat" "stat vs cat"]
    by (simp add: count_cats_def series_get_def py_tie_def py_gt_lt)
qed

lemma score_nonTOs_cols:
  "score_nonTOs cols cur vs cats s = Inr s' \<Longrightarrow> set cats \<subseteq> set cols"
proof (induction cats arbitrary: s)
  case Nil
  then show ?case by simp
next
  case (Cons cat cats)
  obtain c v t where s: "s = (c, v, t)" by (cases s) auto
  from Cons.prems show ?case unfolding s
    by (auto simp: series_get_def split: if_splits dest: Cons.IH)
qed

lemma count_cats_snoc:
  "cats \<noteq> [] \<Longrightarrow> count_cats rel cats cur vs =
     count_cats rel (butlast cats) cur vs + count_cats rel [last cats] cur vs"
proof -
  assume "cats \<noteq> []"
  then have "cats = butlast cats @ [last cats]" by simp
  then have "count_cats rel cats cur vs = count_cats rel (butlast cats @ [last cats]) cur vs"
    by simp
  then show ?thesis by (simp add: count_cats_def del: append_butlast_last_id)
qed

lemma category_scores_Inr:
  assumes "statCats \<noteq> []" and "set statCats \<subseteq> set cols"
  shows "category_scores cols (butlast statCats) (last statCats) cur vs =
           Inr (category_wins statCats cur vs, category_losses statCats cur vs,
                category_ties statCats cur vs)"
proof -
  have b: "set (butlast statCats) \<subseteq> set cols"
    using assms(2) by (meson in_set_butlastD subsetD subsetI)
  have l: "last statCats \<in> set cols"
    using assms by auto
  show ?thesis
    using py_lt_asym [of "stat cur (last statCats)" "stat vs (last statCats)"]
    by (simp add: category_scores_def score_nonTOs_Inr [OF b] series_get_def l
        category_wins_def category_losses_def category_ties_def
        count_cats_snoc [OF assms(1), of py_tie] py_gt_lt)
      (auto simp: count_cats_def py_tie_def py_gt_lt)
qed

lemma category_scores_cols:
  assumes "statCats \<noteq> []"
    and "category_scores cols (butlast statCats) (last statCats) cur vs = Inr s"
  shows "set statCats \<subseteq> set cols"
proof -
  from assms(2) obtain s0 where
    s0: "score_nonTOs cols cur vs (butlast statCats) (0, 0, 0) = Inr s0"
    and t: "score_TOs cols cur vs (last statCats) s0 = Inr s"
    by (auto simp: category_scores_def split: sum.splits)
  have "set (butlast statCats) \<subseteq> set cols" using s0 by (rule score_nonTOs_cols)
  moreover have "last statCats \<in> set cols"
    using t by (cases s0) (auto simp: series_get_def split: if_splits)
  moreover have "set statCats = set (butlast statCats) \<union> {last statCats}"
    using assms(1) by (metis append_butlast_last_id list.simps(15) set_append empty_set)
  ultimately show ?thesis by auto
qed

lemma compare_all_nth:
  assumes "compare_all cols nonTOs TOs rs = Inr M" and "i < length rs" and "j < length rs"
  shows "category_scores cols nonTOs TOs (rs ! i) (rs ! j) = Inr (M ! i ! j)"
proof -
  from assms(1,2) have "mapM (\<lambda>j. category_scores cols nonTOs TOs (rs ! i) (rs ! j))
      [0..<length rs] = Inr (M ! i)"
    by (auto simp: compare_all_def mapM_Inr_iff)
  with assms(3) show ?thesis
    by (auto simp: mapM_Inr_iff)
qed

lemma compare_all_length:
  assumes "compare_all cols nonTOs TOs rs = Inr M"
  shows "length M = length rs" and "i < length rs \<Longrightarrow> length (M ! i) = length rs"
proof -
  show "length M = length rs"
    using assms by (auto simp: compare_all_def mapM_Inr_iff)
  assume "i < length rs"
  with assms have "mapM (\<lambda>j. category_scores cols nonTOs TOs (rs ! i) (rs ! j))
      [0..<length rs] = Inr (M ! i)"
    by (auto simp: compare_all_def mapM_Inr_iff)
  then show "length (M ! i) = length rs"
    by (auto simp: mapM_Inr_iff)
qed

lemma compare_all_total:
  assumes "statCats \<noteq> []" and "set statCats \<subseteq> set cols"
  shows "\<exists>M. compare_all cols (butlast statCats) (last statCats) rs = Inr M"
  unfolding compare_all_def
  by (intro mapM_total ballI) (simp add: category_scores_Inr [OF assms])

lemma compare_all_counts:
  assumes "statCats \<noteq> []"
    and "compare_all cols (butlast statCats) (last statCats) rs = Inr M"
    and "i < length rs" and "j < length rs"
  shows "M ! i ! j = (category_wins statCats (rs ! i) (rs ! j),
                      category_losses statCats (rs ! i) (rs ! j),
                      category_ties statCats (rs ! i) (rs ! j))"
proof -
  have c: "category_scores cols (butlast statCats) (last statCats) (rs ! i) (rs ! j)
             = Inr (M ! i ! j)"
    using assms(2-4) by (rule compare_all_nth)
  then have "set statCats \<subseteq> set cols"
    using assms(1) category_scores_cols by blast
  from category_scores_Inr [OF assms(1) this, of "rs ! i" "rs ! j"] c
  show ?thesis by simp
qed

lemma count_cats_swap: "count_cats py_gt cats cur vs = count_cats py_lt cats vs cur"
  by (simp add: count_cats_def py_gt_lt)

lemma category_losses_swap: "category_losses statCats cur vs = category_wins statCats vs cur"
  by (simp add: category_losses_def category_wins_def count_cats_swap)

lemma category_ties_swap: "category_ties statCats cur vs = category_ties statCats vs cur"
  by (auto simp add: category_ties_def count_cats_def py_tie_def py_gt_lt intro: arg_cong [where f=length] filter_cong)

lemma count_cats_partition:
  "count_cats py_gt cats cur vs + count_cats py_lt cats cur vs + count_cats py_tie cats cur vs
     = length cats"
proof (induction cats)
  case Nil
  then show ?case by (simp add: count_cats_def)
next
  case (Cons cat cats)
  then show ?case
    using py_lt_asym [of "stat cur cat" "stat vs cat"]
    by (auto simp: count_cats_def py_tie_def py_gt_lt)
qed

lemma category_counts_sum:
  assumes "statCats \<noteq> []"
  shows "category_wins statCats cur vs + category_losses statCats cur vs
           + category_ties statCats cur vs = length statCats"
proof -
  have "length statCats = length (butlast statCats) + length [last statCats]"
    using assms by simp
  then show ?thesis
    using count_cats_partition [of "butlast statCats" cur vs]
      count_cats_partition [of "[last statCats]" cur vs]
    by (simp add: category_wins_def category_losses_def category_ties_def
        count_cats_snoc [OF assms, of py_tie])
qed

text \<open>
  Claim C1. When the frame has every stat category as a column, the nested loop returns,
  and for every pair of rows \<open>(i, j)\<close> its three counts add up to the number of stat
  categories: each category gives one point to exactly one of \<open>curScore\<close>,
  \<open>vsScore\<close> and \<open>tieScore\<close>.
\<close>

theorem category_counts_sum_to_category_count:
  assumes "statCats \<noteq> []" and "set statCats \<subseteq> set cols"
    and "i < length rs" and "j < length rs"
  shows "\<exists>M curScore vsScore tieScore.
           compare_all cols (butlast statCats) (last statCats) rs = Inr M \<and>
           M ! i ! j = (curScore, vsScore, tieScore) \<and>
           curScore + vsScore + tieScore = length statCats"
proof -
  from compare_all_total [OF assms(1,2)] obtain M where
    M: "compare_all cols (butlast statCats) (last statCats) rs = Inr M" by blast
  show ?thesis
    using M compare_all_counts [OF assms(1) M assms(3,4)] category_counts_sum [OF assms(1)]
    by blast
qed

theorem category_counts_sum_to_category_count_witness:
  "ex_statCats \<noteq> [] \<and> set ex_statCats \<subseteq> set (columns ex_df) \<and>
   0 < length ex_rows \<and> 1 < length ex_rows \<and>
   (\<exists>M curScore vsScore tieScore.
      compare_all (columns ex_df) (butlast ex_statCats) (last ex_statCats) ex_rows = Inr M \<and>
      M ! 0 ! 1 = (curScore, vsScore, tieScore) \<and>
      curScore + vsScore + tieScore = length ex_statCats)"
  using category_counts_sum_to_category_count [of ex_statCats "columns ex_df" 0 ex_rows 1]
  by (simp add: ex_statCats_def ex_df_def ex_rows_def)

lemma ex_compare_all:
  "compare_all (columns ex_df) (butlast ex_statCats) (last ex_statCats) ex_rows =
     Inr [[(0, 0, 3), (2, 0, 1), (1, 2, 0)],
          [(0, 2, 1), (0, 0, 3), (0, 2, 1)],
          [(2, 1, 0), (2, 0, 1), (0, 0, 3)]]"
  by (simp add: compare_all_def ex_df_def ex_statCats_def ex_rows_def category_scores_def
      series_get_def mk_stats_def upt_conv_Cons)

lemma set_diag_nth:
  "i < length A \<Longrightarrow> set_diag A v ! i = (A ! i)[i := v]"
  by (simp add: set_diag_def)

lemma length_set_diag: "length (set_diag A v) = length A"
  by (simp add: set_diag_def)

lemma winner_value_range: "winner_value s = 0 \<or> winner_value s = 1 / 2 \<or> winner_value s = 1"
  by (cases s) (auto simp: winner_value_def)

text \<open>
  Claim C2. The matrix the pairwise comparison (lines 139-145) writes: for every pair of
  row indices \<open>(i, j)\<close>, \<open>matchupWinner[i, j]\<close> is 1 when row \<open>i\<close> wins more
  categories against row \<open>j\<close> than row \<open>j\<close> wins against row \<open>i\<close>, 0 when it wins
  fewer, and 0.5 when the two counts are equal.
\<close>

theorem matchupWinner_is_win_loss_tie:
  assumes "statCats \<noteq> []"
    and "compare_all cols (butlast statCats) (last statCats) rs = Inr M"
    and "i < length rs" and "j < length rs"
  shows "matchupWinner_loop M ! i ! j =
           (if category_wins statCats (rs ! i) (rs ! j) > category_wins statCats (rs ! j) (rs ! i)
            then 1
            else if category_wins statCats (rs ! i) (rs ! j) < category_wins statCats (rs ! j) (rs ! i)
            then 0
            else 1 / 2)"
proof -
  have "matchupWinner_loop M ! i ! j = winner_value (M ! i ! j)"
    using compare_all_length [OF assms(2)] assms(3,4) by (simp add: matchupWinner_loop_def)
  then show ?thesis
    by (simp add: compare_all_counts [OF assms] winner_value_def category_losses_swap)
qed

theorem matchupWinner_is_win_loss_tie_witness:
  "ex_statCats \<noteq> [] \<and>
   compare_all (columns ex_df) (butlast ex_statCats) (last ex_statCats) ex_rows =
     Inr [[(0, 0, 3), (2, 0, 1), (1, 2, 0)],
          [(0, 2, 1), (0, 0, 3), (0, 2, 1)],
          [(2, 1, 0), (2, 0, 1), (0, 0, 3)]] \<and>
   category_wins ex_statCats (ex_rows ! 0) (ex_rows ! 1) = 2 \<and>
   category_wins ex_statCats (ex_rows ! 1) (ex_rows ! 0) = 0 \<and>
   matchupWinner_loop [[(0, 0, 3), (2, 0, 1), (1, 2, 0)],
          [(0, 2, 1), (0, 0, 3), (0, 2, 1)],
          [(2, 1, 0), (2, 0, 1), (0, 0, 3)]] ! 0 ! 1 = 1"
proof -
  have ne: "ex_statCats \<noteq> []" by (simp add: ex_statCats_def)
  have w01: "category_wins ex_statCats (ex_rows ! 0) (ex_rows ! 1) = 2"
    by (simp add: category_wins_def count_cats_def ex_statCats_def ex_rows_def mk_stats_def)
  have w10: "category_wins ex_statCats (ex_rows ! 1) (ex_rows ! 0) = 0"
    by (simp add: category_wins_def count_cats_def ex_statCats_def ex_rows_def mk_stats_def)
  have len: "0 < length ex_rows" "1 < length ex_rows" by (simp_all add: ex_rows_def)
  show ?thesis
    using matchupWinner_is_win_loss_tie [OF ne ex_compare_all len] ne ex_compare_all w01 w10
    by simp
qed

lemma returned_matchupWinner:
  assumes "create_matchup_comparison isalnum files statCats df visualize = Inr (df', MS, MW)"
    and "i < length (rows df)" and "j < length (rows df)"
  shows "\<exists>M. compare_all (columns df) (butlast statCats) (last statCats) (rows df) = Inr M \<and>
             MW ! i ! j = (if i = j then - 1 else matchupWinner_loop M ! i ! j)"
proof -
  from assms(1) obtain M where
    M: "compare_all (columns df) (butlast statCats) (last statCats) (rows df) = Inr M"
    and MW: "MW = set_diag (set_diag (matchupWinner_loop M) 0) (- 1)"
    by (auto simp: create_matchup_comparison_def Let_def split: if_splits sum.splits option.splits)
  have l: "length M = length (rows df)" "length (M ! i) = length (rows df)"
    using compare_all_length [OF M] assms(2) by auto
  have "MW ! i ! j = (if i = j then - 1 else matchupWinner_loop M ! i ! j)"
    using assms(2,3) l
    by (auto simp: MW set_diag_nth length_set_diag matchupWinner_loop_def)
  with M show ?thesis by blast
qed

text \<open>
  Claim C3. In the matrix \<open>matchupScore\<close> that \<open>create_matchup_comparison\<close> returns,
  the entry of two distinct rows \<open>i\<close> and \<open>j\<close> is \<open>curScore-vsScore-tieScore\<close> when
  \<open>tieScore\<close> is positive and \<open>curScore-vsScore\<close> when it is zero, the counts being the
  categories row \<open>i\<close> wins, loses and ties against row \<open>j\<close>; an entry of the diagonal is
  \<open>N/A\<close>.
\<close>

theorem matchupScore_string_format:
  assumes "create_matchup_comparison isalnum files statCats df visualize
             = Inr (df', matchupScore, matchupWinner)"
    and "i < length (rows df)" and "j < length (rows df)"
  shows "matchupScore ! i ! j =
           (if i = j then ''N/A''
            else
              let curScore = category_wins statCats (rows df ! i) (rows df ! j);
                  vsScore = category_losses statCats (rows df ! i) (rows df ! j);
                  tieScore = category_ties statCats (rows df ! i) (rows df ! j)
              in if tieScore > 0
                 then str_nat curScore @ ''-'' @ str_nat vsScore @ ''-'' @ str_nat tieScore
                 else str_nat curScore @ ''-'' @ str_nat vsScore)"
proof -
  from assms(1) have ne: "statCats \<noteq> []"
    by (auto simp: create_matchup_comparison_def split: if_splits)
  from assms(1) obtain M where
    M: "compare_all (columns df) (butlast statCats) (last statCats) (rows df) = Inr M"
    and MS: "matchupScore = set_diag (matchupScore_loop M) ''N/A''"
    by (auto simp: create_matchup_comparison_def Let_def split: if_splits sum.splits option.splits)
  have l: "length M = length (rows df)" "length (M ! i) = length (rows df)"
    using compare_all_length [OF M] assms(2) by auto
  have "matchupScore ! i ! j = (if i = j then ''N/A'' else score_string (M ! i ! j))"
    using assms(2,3) l by (auto simp: MS set_diag_nth matchupScore_loop_def)
  then show ?thesis
    by (simp add: compare_all_counts [OF ne M assms(2,3)] score_string_def Let_def)
qed

lemma ex_create_matchup_comparison:
  "create_matchup_comparison ascii_isalnum no_failure ex_statCats ex_df False =
     Inr (\<lparr>columns = ex_statCats,
           rows =
             [\<lparr>manager = ''Ann'', teamName = ''Team A'', matchupNumber = ''0'',
               stat = mk_stats [(''PTS'', 100), (''REB'', 40), (''TO'', 10)],
               totalWins = 1, totalLosses = 1, totalTies = 0\<rparr>,
              \<lparr>manager = ''Bob'', teamName = ''B-Team'', matchupNumber = ''0'',
               stat = mk_stats [(''PTS'', 90), (''REB'', 40), (''TO'', 12)],
               totalWins = 0, totalLosses = 2, totalTies = 0\<rparr>,
              \<lparr>manager = ''Cy'', teamName = ''C Team'', matchupNumber = ''1'',
               stat = mk_stats [(''PTS'', 110), (''REB'', 50), (''TO'', 12)],
               totalWins = 2, totalLosses = 0, totalTies = 0\<rparr>]\<rparr>,
          [[''N/A'', ''2-0-1'', ''1-2''],
           [''0-2-1'', ''N/A'', ''0-2-1''],
           [''2-1'', ''2-0-1'', ''N/A'']],
          [[- 1, 1, 0], [0, - 1, 0], [1, 1, - 1]])"
proof -
  have c: "compare_all ex_statCats [''PTS'', ''REB''] ''TO'' ex_rows =
     Inr [[(0, 0, 3), (2, 0, 1), (1, 2, 0)],
          [(0, 2, 1), (0, 0, 3), (0, 2, 1)],
          [(2, 1, 0), (2, 0, 1), (0, 0, 3)]]"
    using ex_compare_all by (simp add: ex_df_def ex_statCats_def)
 have s: "str_nat 0 = ''0''" "str_nat (Suc 0) = ''1''" "str_nat 2 = ''2''" "str_nat 3 = ''3''"
    by (simp_all add: str_nat.simps digit_char_def)
  have r: "rows ex_df = ex_rows" "columns ex_df = ex_statCats" by (simp_all add: ex_df_def)
  show ?thesis
    unfolding create_matchup_comparison_def r
    apply (simp add: ex_statCats_def c [unfolded ex_statCats_def])
    apply (simp add: Let_def matchupScore_loop_def matchupWinner_loop_def score_string_def
        winner_value_def s set_diag_def upt_conv_Cons totalWins_col_def totalLosses_col_def
        totalTies_col_def mask_assign_def sum_axis1_def one_minus_def add_totals_def
        fix_names_teams_def ex_df_def ex_statCats_def ex_rows_def keep_char_def ascii_isalnum_def)
    done
qed

theorem matchupScore_string_format_witness:
  "0 < length (rows ex_df) \<and> 1 < length (rows ex_df) \<and>
   [[''N/A'', ''2-0-1'', ''1-2''], [''0-2-1'', ''N/A'', ''0-2-1''], [''2-1'', ''2-0-1'', ''N/A'']]
      ! 0 ! 1 =
     (if (0::nat) = 1 then ''N/A''
      else
        let curScore = category_wins ex_statCats (rows ex_df ! 0) (rows ex_df ! 1);
            vsScore = category_losses ex_statCats (rows ex_df ! 0) (rows ex_df ! 1);
            tieScore = category_ties ex_statCats (rows ex_df ! 0) (rows ex_df ! 1)
        in if tieScore > 0
           then str_nat curScore @ ''-'' @ str_nat vsScore @ ''-'' @ str_nat tieScore
           else str_nat curScore @ ''-'' @ str_nat vsScore)"
proof -
  have len: "0 < length (rows ex_df)" "1 < length (rows ex_df)"
    by (simp_all add: ex_df_def ex_rows_def)
  show ?thesis
    using matchupScore_string_format [OF ex_create_matchup_comparison len] len
    by blast
qed

lemma sum_list_three_way:
  "\<forall>x\<in>set xs. f x + g x + h x = (1::real) \<Longrightarrow>
   sum_list (map f xs) + sum_list (map g xs) + sum_list (map h xs) = real (length xs)"
  by (induction xs) (auto simp: algebra_simps)

text \<open>
  Claim C8. The last stat category (turnovers) is scored the other way round. Whatever the
  other categories give (there the larger value wins), the row with the strictly smaller
  value of the last category gets its point, a strictly larger value gives the point to the
  opponent, and equal values add one tie.
\<close>

theorem turnovers_scored_inverted:
  assumes "statCats \<noteq> []"
    and "category_scores cols (butlast statCats) (last statCats) curTeam vsTeam
           = Inr (curScore, vsScore, tieScore)"
  shows "(py_lt (stat curTeam (last statCats)) (stat vsTeam (last statCats)) \<longrightarrow>
            curScore = count_cats py_gt (butlast statCats) curTeam vsTeam + 1 \<and>
            vsScore = count_cats py_lt (butlast statCats) curTeam vsTeam \<and>
            tieScore = count_cats py_tie (butlast statCats) curTeam vsTeam) \<and>
         (py_gt (stat curTeam (last statCats)) (stat vsTeam (last statCats)) \<longrightarrow>
            curScore = count_cats py_gt (butlast statCats) curTeam vsTeam \<and>
            vsScore = count_cats py_lt (butlast statCats) curTeam vsTeam + 1 \<and>
            tieScore = count_cats py_tie (butlast statCats) curTeam vsTeam) \<and>
         (stat curTeam (last statCats) = stat vsTeam (last statCats) \<longrightarrow>
            curScore = count_cats py_gt (butlast statCats) curTeam vsTeam \<and>
            vsScore = count_cats py_lt (butlast statCats) curTeam vsTeam \<and>
            tieScore = count_cats py_tie (butlast statCats) curTeam vsTeam + 1)"
proof -
  have cols: "set statCats \<subseteq> set cols"
    using assms category_scores_cols by blast
  have c: "curScore = category_wins statCats curTeam vsTeam"
    and v: "vsScore = category_losses statCats curTeam vsTeam"
    and t: "tieScore = category_ties statCats curTeam vsTeam"
    using category_scores_Inr [OF assms(1) cols, of curTeam vsTeam] assms(2) by simp_all
  show ?thesis
    using py_lt_asym [of "stat curTeam (last statCats)" "stat vsTeam (last statCats)"]
      py_lt_irrefl [of "stat vsTeam (last statCats)"]
    unfolding c v t category_wins_def category_losses_def category_ties_def
      count_cats_snoc [OF assms(1), of py_tie]
    by (auto simp: count_cats_def py_tie_def py_gt_lt)
qed

theorem turnovers_scored_inverted_witness:
  "ex_statCats \<noteq> [] \<and>
   category_scores (columns ex_df) (butlast ex_statCats) (last ex_statCats)
       (ex_rows ! 0) (ex_rows ! 1) = Inr (2, 0, 1) \<and>
   py_lt (stat (ex_rows ! 0) (last ex_statCats)) (stat (ex_rows ! 1) (last ex_statCats)) \<and>
   (2::nat) = count_cats py_gt (butlast ex_statCats) (ex_rows ! 0) (ex_rows ! 1) + 1 \<and>
   (0::nat) = count_cats py_lt (butlast ex_statCats) (ex_rows ! 0) (ex_rows ! 1) \<and>
   (1::nat) = count_cats py_tie (butlast ex_statCats) (ex_rows ! 0) (ex_rows ! 1)"
proof -
  have ne: "ex_statCats \<noteq> []" by (simp add: ex_statCats_def)
  have c: "category_scores (columns ex_df) (butlast ex_statCats) (last ex_statCats)
       (ex_rows ! 0) (ex_rows ! 1) = Inr (2, 0, 1)"
    by (simp add: ex_df_def ex_statCats_def ex_rows_def category_scores_def series_get_def
        mk_stats_def)
  have lt: "py_lt (stat (ex_rows ! 0) (last ex_statCats)) (stat (ex_rows ! 1) (last ex_statCats))"
    by (simp add: ex_statCats_def ex_rows_def mk_stats_def)
  show ?thesis
    using turnovers_scored_inverted [OF ne c] ne c lt by blast
qed

text \<open>
  Claim C9. Every row of the dataframe \<open>create_matchup_comparison\<close> returns satisfies
  \<open>totalWins + totalLosses + totalTies = n - 1\<close>, where \<open>n\<close> is the number of rows.
\<close>

theorem totals_sum_to_opponents:
  assumes "create_matchup_comparison isalnum files statCats df visualize
             = Inr (df', matchupScore, matchupWinner)"
    and "r \<in> set (rows df')"
  shows "totalWins r + totalLosses r + totalTies r = real (length (rows df')) - 1"
proof -
  from assms(1) obtain M where
    M: "compare_all (columns df) (butlast statCats) (last statCats) (rows df) = Inr M"
    and df': "df' = fix_names_teams isalnum
        (add_totals df (totalWins_col (set_diag (matchupWinner_loop M) 0))
           (totalLosses_col (set_diag (matchupWinner_loop M) 0))
           (totalTies_col (set_diag (matchupWinner_loop M) 0)))"
    by (auto simp: create_matchup_comparison_def Let_def split: if_splits sum.splits option.splits)
  define W where "W = set_diag (matchupWinner_loop M) 0"
  define n where "n = length (rows df)"
  have lM: "length M = n" using compare_all_length(1) [OF M] by (simp add: n_def)
  have lW: "length W = n" by (simp add: W_def length_set_diag matchupWinner_loop_def lM)
  have n': "length (rows df') = n"
    by (simp add: df' fix_names_teams_def add_totals_def n_def)
  from assms(2) obtain i where i: "i < n"
    and r: "totalWins r = totalWins_col W ! i" "totalLosses r = totalLosses_col W ! i"
      "totalTies r = totalTies_col W ! i"
    by (auto simp: df' fix_names_teams_def add_totals_def W_def n_def)
  have Wi: "W ! i = (map winner_value (M ! i))[i := 0]"
    using i lM by (simp add: W_def set_diag_nth matchupWinner_loop_def)
  have lWi: "length (W ! i) = n"
    using compare_all_length(2) [OF M, of i] i by (simp add: Wi n_def)
  have range: "\<forall>x\<in>set (W ! i). x = 0 \<or> x = 1 / 2 \<or> x = 1"
  proof
    fix x assume "x \<in> set (W ! i)"
    then have "x = 0 \<or> x \<in> set (map winner_value (M ! i))"
      unfolding Wi using set_update_subset_insert by fastforce
    then show "x = 0 \<or> x = 1 / 2 \<or> x = 1"
      using winner_value_range by auto
  qed
  define f :: "real \<Rightarrow> real" where "f = (\<lambda>x. if x \<noteq> 1 then 0 else x)"
  define g :: "real \<Rightarrow> real" where "g = (\<lambda>x. 1 - (if x \<noteq> 0 then 1 else x))"
  define h :: "real \<Rightarrow> real" where
    "h = (\<lambda>x. if (if x \<noteq> 1 / 2 then 0 else x) = 1 / 2 then 1
               else (if x \<noteq> 1 / 2 then 0 else x))"
  have wins: "totalWins_col W ! i = sum_list (map f (W ! i))"
    using i lW by (simp add: totalWins_col_def sum_axis1_def mask_assign_def f_def)
  have losses: "totalLosses_col W ! i = sum_list (map g (W ! i)) - 1"
    using i lW
    by (simp add: totalLosses_col_def sum_axis1_def mask_assign_def one_minus_def g_def comp_def)
  have ties: "totalTies_col W ! i = sum_list (map h (W ! i))"
    using i lW
    by (simp add: totalTies_col_def sum_axis1_def mask_assign_def h_def comp_def cong: if_cong)
  have "\<forall>x\<in>set (W ! i). f x + g x + h x = 1"
    using range by (auto simp: f_def g_def h_def)
  then have "sum_list (map f (W ! i)) + sum_list (map g (W ! i)) + sum_list (map h (W ! i))
      = real (length (W ! i))"
    by (rule sum_list_three_way)
  then have "totalWins_col W ! i + totalLosses_col W ! i + totalTies_col W ! i
          = real (length (W ! i)) - 1"
    by (simp add: wins losses ties)
  then show ?thesis by (simp add: r lWi n')
qed

theorem totals_sum_to_opponents_witness:
  "\<lparr>manager = ''Ann'', teamName = ''Team A'', matchupNumber = ''0'',
     stat = mk_stats [(''PTS'', 100), (''REB'', 40), (''TO'', 10)],
     totalWins = 1, totalLosses = 1, totalTies = 0\<rparr>
     \<in> set (rows \<lparr>columns = ex_statCats,
           rows =
             [\<lparr>manager = ''Ann'', teamName = ''Team A'', matchupNumber = ''0'',
               stat = mk_stats [(''PTS'', 100), (''REB'', 40), (''TO'', 10)],
               totalWins = 1, totalLosses = 1, totalTies = 0\<rparr>,
              \<lparr>manager = ''Bob'', teamName = ''B-Team'', matchupNumber = ''0'',
               stat = mk_stats [(''PTS'', 90), (''REB'', 40), (''TO'', 12)],
               totalWins = 0, totalLosses = 2, totalTies = 0\<rparr>,
              \<lparr>manager = ''Cy'', teamName = ''C Team'', matchupNumber = ''1'',
               stat = mk_stats [(''PTS'', 110), (''REB'', 50), (''TO'', 12)],
               totalWins = 2, totalLosses = 0, totalTies = 0\<rparr>]\<rparr>) \<and>
   (1::real) + 1 + 0 = real (3::nat) - 1"
  using totals_sum_to_opponents [OF ex_create_matchup_comparison,
      of "\<lparr>manager = ''Ann'', teamName = ''Team A'', matchupNumber = ''0'',
     stat = mk_stats [(''PTS'', 100), (''REB'', 40), (''TO'', 10)],
     totalWins = 1, totalLosses = 1, totalTies = 0\<rparr>"]
  by simp

text \<open>
  Claim C10. Before the diagonal is overwritten the comparison is anti-symmetric: for row
  indices \<open>i\<close> and \<open>j\<close>, the counts of \<open>(j, i)\<close> are those of \<open>(i, j)\<close> with wins
  and losses swapped and the same ties, the two score strings print these counts, and
  \<open>matchupWinner[i, j] + matchupWinner[j, i] = 1\<close>. It holds for \<open>i = j\<close> as well.
\<close>

theorem comparison_antisymmetric:
  assumes "statCats \<noteq> []"
    and "compare_all cols (butlast statCats) (last statCats) rs = Inr M"
    and "i < length rs" and "j < length rs"
  shows "\<exists>curScore vsScore tieScore.
           M ! i ! j = (curScore, vsScore, tieScore) \<and>
           M ! j ! i = (vsScore, curScore, tieScore) \<and>
           matchupScore_loop M ! i ! j = score_string (curScore, vsScore, tieScore) \<and>
           matchupScore_loop M ! j ! i = score_string (vsScore, curScore, tieScore) \<and>
           matchupWinner_loop M ! i ! j + matchupWinner_loop M ! j ! i = 1"
proof -
  have ij: "M ! i ! j = (category_wins statCats (rs ! i) (rs ! j),
      category_losses statCats (rs ! i) (rs ! j), category_ties statCats (rs ! i) (rs ! j))"
    using assms by (rule compare_all_counts)
  have ji: "M ! j ! i = (category_losses statCats (rs ! i) (rs ! j),
      category_wins statCats (rs ! i) (rs ! j), category_ties statCats (rs ! i) (rs ! j))"
    using compare_all_counts [OF assms(1,2,4,3)]
    by (simp add: category_losses_swap category_ties_swap [of statCats "rs ! j"])
  have l: "length M = length rs" "length (M ! i) = length rs" "length (M ! j) = length rs"
    using compare_all_length [OF assms(2)] assms(3,4) by auto
  have s: "matchupScore_loop M ! i ! j = score_string (M ! i ! j)"
    "matchupScore_loop M ! j ! i = score_string (M ! j ! i)"
    using l assms(3,4) by (simp_all add: matchupScore_loop_def)
  have w: "matchupWinner_loop M ! i ! j = winner_value (M ! i ! j)"
    "matchupWinner_loop M ! j ! i = winner_value (M ! j ! i)"
    using l assms(3,4) by (simp_all add: matchupWinner_loop_def)
  have "winner_value (M ! i ! j) + winner_value (M ! j ! i) = 1"
    unfolding ij ji by (simp add: winner_value_def)
  then show ?thesis
    using ij ji s w by simp
qed

theorem comparison_antisymmetric_witness:
  "ex_statCats \<noteq> [] \<and> 0 < length ex_rows \<and> 2 < length ex_rows \<and>
   (\<exists>curScore vsScore tieScore.
      [[(0, 0, 3), (2, 0, 1), (1, 2, 0)], [(0, 2, 1), (0, 0, 3), (0, 2, 1)],
       [(2, 1, 0), (2, 0, 1), (0, 0, 3)]] ! 0 ! 2 = (curScore, vsScore, tieScore) \<and>
      [[(0, 0, 3), (2, 0, 1), (1, 2, 0)], [(0, 2, 1), (0, 0, 3), (0, 2, 1)],
       [(2, 1, 0), (2, 0, 1), (0, 0, 3)]] ! 2 ! 0 = (vsScore, curScore, tieScore) \<and>
      matchupScore_loop [[(0, 0, 3), (2, 0, 1), (1, 2, 0)], [(0, 2, 1), (0, 0, 3), (0, 2, 1)],
       [(2, 1, 0), (2, 0, 1), (0, 0, 3)]] ! 0 ! 2 = score_string (curScore, vsScore, tieScore) \<and>
      matchupScore_loop [[(0, 0, 3), (2, 0, 1), (1, 2, 0)], [(0, 2, 1), (0, 0, 3), (0, 2, 1)],
       [(2, 1, 0), (2, 0, 1), (0, 0, 3)]] ! 2 ! 0 = score_string (vsScore, curScore, tieScore) \<and>
      matchupWinner_loop [[(0, 0, 3), (2, 0, 1), (1, 2, 0)], [(0, 2, 1), (0, 0, 3), (0, 2, 1)],
       [(2, 1, 0), (2, 0, 1), (0, 0, 3)]] ! 0 ! 2
      + matchupWinner_loop [[(0, 0, 3), (2, 0, 1), (1, 2, 0)], [(0, 2, 1), (0, 0, 3), (0, 2, 1)],
       [(2, 1, 0), (2, 0, 1), (0, 0, 3)]] ! 2 ! 0 = 1)"
proof -
  have ne: "ex_statCats \<noteq> []" by (simp add: ex_statCats_def)
  have len: "0 < length ex_rows" "2 < length ex_rows" by (simp_all add: ex_rows_def)
  show ?thesis
    using comparison_antisymmetric [OF ne ex_compare_all len] ne len by blast
qed

section \<open>Properties of refresh\_oauth\_file\<close>

lemma ex_splitext:
  "splitext ''yahoo_oauth.txt'' = (''yahoo_oauth'', ''.txt'')"
  "splitext ''yahoo_oauth.json'' = (''yahoo_oauth'', ''.json'')"
  "splitext ''dir.d/.yaml'' = (''dir.d/.yaml'', [])"
  by (simp_all add: splitext_def rfind_def Let_def upt_conv_Cons)

text \<open>
  Claim C7, as the code has it. With \<open>refresh\<close> true, the function raises the
  \<open>ValueError\<close> of line 427 when the extension of the credential file is neither
  \<open>.json\<close> nor \<open>.yaml\<close>. For these two extensions it does not raise on the extension:
  what it returns or raises is what opening the file, the parser of that extension, the two
  key lookups and the calls that follow return or raise. With \<open>refresh\<close> false the
  extension is not looked at: the function is the calls that follow, whatever the file is
  called.
\<close>

theorem refresh_extension_check:
  "(refresh \<and> snd (splitext oauthFile) \<noteq> ''.json'' \<and> snd (splitext oauthFile) \<noteq> ''.yaml'' \<longrightarrow>
      refresh_oauth_file srv fs oauthFile sport year refresh =
        Inl (ValueError ''Wrong file format for yahoo oauth keys. Please use json or yaml''))
   \<and> (refresh \<and> snd (splitext oauthFile) = ''.json'' \<longrightarrow>
      refresh_oauth_file srv fs oauthFile sport year refresh =
        (case fs oauthFile of
           None \<Rightarrow> Inl (FileNotFoundError oauthFile)
         | Some txt \<Rightarrow>
            (case json_load srv txt of
               Inl e \<Rightarrow> Inl e
             | Inr oauthKeys \<Rightarrow>
                (case oauthKeys ''consumer_key'' of
                   None \<Rightarrow> Inl (KeyError ''consumer_key'')
                 | Some k \<Rightarrow>
                    (case oauthKeys ''consumer_secret'' of
                       None \<Rightarrow> Inl (KeyError ''consumer_secret'')
                     | Some s \<Rightarrow>
                         connect srv
                           (fs(oauthFile \<mapsto>
                              json_dump srv [(''consumer_key'', k), (''consumer_secret'', s)]))
                           oauthFile sport year)))))
   \<and> (refresh \<and> snd (splitext oauthFile) = ''.yaml'' \<longrightarrow>
      refresh_oauth_file srv fs oauthFile sport year refresh =
        (case fs oauthFile of
           None \<Rightarrow> Inl (FileNotFoundError oauthFile)
         | Some txt \<Rightarrow>
            (case yaml_safe_load srv txt of
               Inl e \<Rightarrow> Inl e
             | Inr oauthKeys \<Rightarrow>
                (case oauthKeys ''consumer_key'' of
                   None \<Rightarrow> Inl (KeyError ''consumer_key'')
                 | Some k \<Rightarrow>
                    (case oauthKeys ''consumer_secret'' of
                       None \<Rightarrow> Inl (KeyError ''consumer_secret'')
                     | Some s \<Rightarrow>
                         connect srv
                           (fs(oauthFile \<mapsto>
                              yaml_dump srv [(''consumer_key'', k), (''consumer_secret'', s)]))
                           oauthFile sport year)))))
   \<and> (\<not> refresh \<longrightarrow>
      refresh_oauth_file srv fs oauthFile sport year refresh =
        connect srv fs oauthFile sport year)"
  by (simp add: refresh_oauth_file_def load_oauthKeys_def open_read_def dict_get_def
      write_newKeys_def Let_def split: option.splits sum.splits)

theorem refresh_extension_check_witness:
  "snd (splitext ''yahoo_oauth.txt'') \<noteq> ''.json'' \<and>
   snd (splitext ''yahoo_oauth.txt'') \<noteq> ''.yaml'' \<and>
   refresh_oauth_file ex_services ex_files ''yahoo_oauth.txt'' ''nba'' 2021 True =
     Inl (ValueError ''Wrong file format for yahoo oauth keys. Please use json or yaml'') \<and>
   snd (splitext ''yahoo_oauth.json'') = ''.json'' \<and>
   refresh_oauth_file ex_services ex_files ''yahoo_oauth.json'' ''nba'' 2021 True =
     Inr ((), (), ()) \<and>
   refresh_oauth_file ex_services Map.empty ''yahoo_oauth.json'' ''nba'' 2021 True =
     Inl (FileNotFoundError ''yahoo_oauth.json'') \<and>
   snd (splitext ''keys.yaml'') = ''.yaml'' \<and>
   refresh_oauth_file ex_services Map.empty ''keys.yaml'' ''nba'' 2021 True =
     Inl (FileNotFoundError ''keys.yaml'') \<and>
   refresh_oauth_file ex_services Map.empty ''yahoo_oauth.txt'' ''nba'' 2021 False =
     connect ex_services Map.empty ''yahoo_oauth.txt'' ''nba'' 2021"
proof -
  have c: "connect ex_services fs' q ''nba'' 2021 = Inr ((), (), ())" for fs' q
    by (simp add: connect_def ex_services_def)
  have j: "json_load ex_services body =
      Inr [''consumer_key'' \<mapsto> ''k'', ''consumer_secret'' \<mapsto> ''s'']" for body
    by (simp add: ex_services_def)
  have f: "ex_files ''yahoo_oauth.json'' = Some ''y''"
    by (simp add: ex_files_def)
  have y: "splitext ''keys.yaml'' = (''keys'', ''.yaml'')"
    by (simp add: splitext_def rfind_def Let_def upt_conv_Cons)
  show ?thesis
    using refresh_extension_check [of True "''yahoo_oauth.txt''" ex_services ex_files
        "''nba''" 2021]
      refresh_extension_check [of True "''yahoo_oauth.json''" ex_services ex_files
        "''nba''" 2021]
      refresh_extension_check [of True "''yahoo_oauth.json''" ex_services Map.empty
        "''nba''" 2021]
      refresh_extension_check [of True "''keys.yaml''" ex_services Map.empty "''nba''" 2021]
      refresh_extension_check [of False "''yahoo_oauth.txt''" ex_services Map.empty
        "''nba''" 2021]
    by (simp add: ex_splitext y c j f)
qed

text \<open>
  Claim C7 as stated fails: with \<open>refresh\<close> false, the default and what the main script
  passes, lines 414-442 are skipped and a file named \<open>yahoo_oauth.txt\<close> raises nothing.
\<close>

theorem no_extension_check_without_refresh:
  "snd (splitext ''yahoo_oauth.txt'') \<noteq> ''.json'' \<and>
   snd (splitext ''yahoo_oauth.txt'') \<noteq> ''.yaml'' \<and>
   refresh_oauth_file ex_services ex_files ''yahoo_oauth.txt'' ''nba'' 2021 False =
     Inr ((), (), ())"
  by (simp add: ex_splitext refresh_oauth_file_def connect_def ex_services_def)

lemma ex_refresh_json:
  "refresh_oauth_file ex_services ex_files ''yahoo_oauth.json'' ''nba'' 2021 True =
     Inr ((), (), ())"
  by (simp add: ex_splitext refresh_oauth_file_def connect_def ex_services_def
      load_oauthKeys_def open_read_def ex_files_def dict_get_def)

section \<open>Properties of the walk over the days\<close>

lemma dateRanges_days:
  "startDate \<le> endDate \<Longrightarrow>
   map date_ordinal (dateRanges startDate endDate) = [startDate..endDate + 1]"
proof -
  assume le: "startDate \<le> endDate"
  have "map date_ordinal (dateRanges startDate endDate) =
      map (\<lambda>k. startDate + int k) [0..<nat (endDate - startDate + 2)]"
    by (simp add: dateRanges_def py_range_def combine_def comp_def)
  also have "\<dots> = [startDate..endDate + 1]"
  proof (rule nth_equalityI)
    show "length (map (\<lambda>k. startDate + int k) [0..<nat (endDate - startDate + 2)])
        = length [startDate..endDate + 1]"
      using le by simp
  next
    fix i assume "i < length (map (\<lambda>k. startDate + int k) [0..<nat (endDate - startDate + 2)])"
    then show "map (\<lambda>k. startDate + int k) [0..<nat (endDate - startDate + 2)] ! i
        = [startDate..endDate + 1] ! i"
      using le by simp
  qed
  finally show ?thesis .
qed

lemma ex_dateRanges_week:
  "dateRanges 738095 738101 =
     [combine 738095 (23, 59, 59), combine 738096 (23, 59, 59), combine 738097 (23, 59, 59),
      combine 738098 (23, 59, 59), combine 738099 (23, 59, 59), combine 738100 (23, 59, 59),
      combine 738101 (23, 59, 59), combine 738102 (23, 59, 59)]"
  by (simp add: dateRanges_def py_range_def upt_conv_Cons)

text \<open>
  Claim C6 fails on the code. For the week from Monday 2021-11-01 (ordinal 738095) to
  Sunday 2021-11-07 (ordinal 738101), \<open>range(dateDiff.days + 2)\<close> gives eight days: the
  list ends one day after the end date of the week, and the loop over it runs eight times.
  Points scored on 2021-11-08 only are in the totals of the week.
\<close>

theorem dateRanges_one_day_past_the_week:
  "map date_ordinal (dateRanges 738095 738101) =
     [738095, 738096, 738097, 738098, 738099, 738100, 738101, 738102] \<and>
   length (enumerate 0 (dateRanges 738095 738101)) = 8 \<and>
   (case weekly_loop (+) ex_late_api nine_cats 1 738095 738101 of
      Inl e \<Rightarrow> None
    | Inr (sunday, rosterTotals) \<Rightarrow>
        Some (map (map (\<lambda>r. (player_id r, stat_total r ''PTS''))) rosterTotals))
   = Some [[(7, 30)]]"
  by (simp add: weekly_loop_def ex_dateRanges_week enumerate_eq_zip upt_conv_Cons day_step_def
      ex_late_api_def combine_def previousSunday_def roster_frame_def totals_frame_def
      startedPlayerIDs_def nine_cats_def had_game_def all_dash_def mk_cells_def
      assign_current_def assign_previous_def common_ids_def add_player_stats_def
      add_new_player_def broadcast_rows_def stat_values_def mark_dropped_def Let_def)

section \<open>Properties of max\_min\_stats\<close>

lemma fold_nan_max_Num:
  "\<exists>m. fold nan_max xs (Num b) = Num m \<and> (m = b \<or> Num m \<in> set xs) \<and> b \<le> m \<and>
       (\<forall>a. Num a \<in> set xs \<longrightarrow> a \<le> m)"
proof (induction xs arbitrary: b)
  case Nil
  then show ?case by simp
next
  case (Cons x xs)
  show ?case
  proof (cases x)
    case NaN
    then show ?thesis using Cons.IH [of b] by auto
  next
    case (Num a)
    from Cons.IH [of "max a b"] obtain m where
      m: "fold nan_max xs (Num (max a b)) = Num m" "m = max a b \<or> Num m \<in> set xs"
        "max a b \<le> m" "\<forall>a'. Num a' \<in> set xs \<longrightarrow> a' \<le> m"
      by blast
    then show ?thesis using Num by (auto simp: max_def split: if_splits)
  qed
qed

lemma column_max_true:
  assumes "\<exists>a. Num a \<in> set xs"
  shows "\<exists>m. column_max xs = Num m \<and> Num m \<in> set xs \<and> (\<forall>a. Num a \<in> set xs \<longrightarrow> a \<le> m)"
  using assms unfolding column_max_def
proof (induction xs)
  case Nil
  then show ?case by simp
next
  case (Cons x xs)
  show ?case
  proof (cases x)
    case NaN
    then show ?thesis using Cons by auto
  next
    case (Num b)
    from fold_nan_max_Num [of xs b] obtain m where
      "fold nan_max xs (Num b) = Num m" "m = b \<or> Num m \<in> set xs" "b \<le> m"
      "\<forall>a. Num a \<in> set xs \<longrightarrow> a \<le> m"
      by blast
    then show ?thesis using Num by auto
  qed
qed

lemma fold_nan_min_Num:
  "\<exists>m. fold nan_min xs (Num b) = Num m \<and> (m = b \<or> Num m \<in> set xs) \<and> m \<le> b \<and>
       (\<forall>a. Num a \<in> set xs \<longrightarrow> m \<le> a)"
proof (induction xs arbitrary: b)
  case Nil
  then show ?case by simp
next
  case (Cons x xs)
  show ?case
  proof (cases x)
    case NaN
    then show ?thesis using Cons.IH [of b] by auto
  next
    case (Num a)
    from Cons.IH [of "min a b"] obtain m where
      m: "fold nan_min xs (Num (min a b)) = Num m" "m = min a b \<or> Num m \<in> set xs"
        "m \<le> min a b" "\<forall>a'. Num a' \<in> set xs \<longrightarrow> m \<le> a'"
      by blast
    then show ?thesis using Num by (auto simp: min_def split: if_splits)
  qed
qed

lemma column_min_true:
  assumes "\<exists>a. Num a \<in> set xs"
  shows "\<exists>m. column_min xs = Num m \<and> Num m \<in> set xs \<and> (\<forall>a. Num a \<in> set xs \<longrightarrow> m \<le> a)"
  using assms unfolding column_min_def
proof (induction xs)
  case Nil
  then show ?case by simp
next
  case (Cons x xs)
  show ?case
  proof (cases x)
    case NaN
    then show ?thesis using Cons by auto
  next
    case (Num b)
    from fold_nan_min_Num [of xs b] obtain m where
      "fold nan_min xs (Num b) = Num m" "m = b \<or> Num m \<in> set xs" "m \<le> b"
      "\<forall>a. Num a \<in> set xs \<longrightarrow> m \<le> a"
      by blast
    then show ?thesis using Num by auto
  qed
qed

lemma py_eq_Num: "py_eq x (Num m) = (x = Num m)"
  by (cases x) auto

lemma stat_list_nth:
  assumes "k < length statCats" and "reduce (map (\<lambda>r. stat r (statCats ! k)) (rows df)) = Num m"
  shows "stat_list reduce statCats df ! k =
           \<lparr>Stat = statCats ! k, Value = Num m,
            Managers = join '', '' (map manager
                         (filter (\<lambda>r. stat r (statCats ! k) = Num m) (rows df)))\<rparr>"
  using assms by (simp add: stat_list_def py_eq_Num Let_def)

text \<open>
  Claim C4. For the \<open>k\<close>-th stat category, a column with at least one number in it, the
  value of row \<open>k\<close> of \<open>maxStatDF\<close> is a cell of the column that no cell exceeds, the
  value of row \<open>k\<close> of \<open>minStatDF\<close> is a cell of the column that exceeds no cell, and
  \<open>Manager(s)\<close> holds the managers of exactly the rows with that value, in row order,
  joined by a comma and a space.
\<close>

theorem max_min_stats_true_extremes:
  assumes "max_min_stats files origStatCats df visualize = Inr (maxStatDF, minStatDF)"
    and "k < length (origStatCats @ [''FGM'', ''FGA'', ''FTM'', ''FTA''])"
    and "cat = (origStatCats @ [''FGM'', ''FGA'', ''FTM'', ''FTA'']) ! k"
    and "\<exists>r\<in>set (rows df). stat r cat \<noteq> NaN"
  shows "\<exists>hi lo.
           (\<exists>r\<in>set (rows df). stat r cat = Num hi) \<and>
           (\<forall>r\<in>set (rows df). \<forall>a. stat r cat = Num a \<longrightarrow> a \<le> hi) \<and>
           maxStatDF ! k =
             \<lparr>Stat = cat, Value = Num hi,
              Managers = join '', '' (map manager (filter (\<lambda>r. stat r cat = Num hi) (rows df)))\<rparr> \<and>
           (\<exists>r\<in>set (rows df). stat r cat = Num lo) \<and>
           (\<forall>r\<in>set (rows df). \<forall>a. stat r cat = Num a \<longrightarrow> lo \<le> a) \<and>
           minStatDF ! k =
             \<lparr>Stat = cat, Value = Num lo,
              Managers = join '', '' (map manager (filter (\<lambda>r. stat r cat = Num lo) (rows df)))\<rparr>"
proof -
  define statCats where "statCats = origStatCats @ [''FGM'', ''FGA'', ''FTM'', ''FTA'']"
  define col where "col = map (\<lambda>r. stat r cat) (rows df)"
  from assms(1) have mx: "maxStatDF = stat_list column_max statCats df"
    and mn: "minStatDF = stat_list column_min statCats df"
    by (auto simp: max_min_stats_def Let_def statCats_def split: list.splits option.splits)
  have k: "k < length statCats" "cat = statCats ! k"
    using assms(2,3) by (simp_all add: statCats_def)
  from assms(4) have num: "\<exists>a. Num a \<in> set col"
    unfolding col_def by (metis (mono_tags, lifting) image_eqI list.set_map pyfloat.exhaust)
  from column_max_true [OF num] obtain hi where
    hi: "column_max col = Num hi" "Num hi \<in> set col" "\<forall>a. Num a \<in> set col \<longrightarrow> a \<le> hi"
    by blast
  from column_min_true [OF num] obtain lo where
    lo: "column_min col = Num lo" "Num lo \<in> set col" "\<forall>a. Num a \<in> set col \<longrightarrow> lo \<le> a"
    by blast
  have "maxStatDF ! k =
      \<lparr>Stat = cat, Value = Num hi,
       Managers = join '', '' (map manager (filter (\<lambda>r. stat r cat = Num hi) (rows df)))\<rparr>"
    unfolding mx k(2) using k(1) hi(1) [unfolded col_def k(2)] by (rule stat_list_nth)
  moreover have "minStatDF ! k =
      \<lparr>Stat = cat, Value = Num lo,
       Managers = join '', '' (map manager (filter (\<lambda>r. stat r cat = Num lo) (rows df)))\<rparr>"
    unfolding mn k(2) using k(1) lo(1) [unfolded col_def k(2)] by (rule stat_list_nth)
  moreover have "\<exists>r\<in>set (rows df). stat r cat = Num hi" "\<exists>r\<in>set (rows df). stat r cat = Num lo"
    using hi(2) lo(2) by (auto simp: col_def)
  moreover have "\<forall>r\<in>set (rows df). \<forall>a. stat r cat = Num a \<longrightarrow> a \<le> hi"
    "\<forall>r\<in>set (rows df). \<forall>a. stat r cat = Num a \<longrightarrow> lo \<le> a"
    using hi(3) lo(3) by (force simp: col_def)+
  ultimately show ?thesis by blast
qed

lemma ex_max_min_stats:
  "max_min_stats files_written [''PTS''] ex_shooting_df True =
     Inr ([\<lparr>Stat = ''PTS'', Value = Num 110, Managers = ''Ann, Bob''\<rparr>,
           \<lparr>Stat = ''FGM'', Value = Num 42, Managers = ''Bob''\<rparr>,
           \<lparr>Stat = ''FGA'', Value = Num 90, Managers = ''Ann''\<rparr>,
           \<lparr>Stat = ''FTM'', Value = Num 20, Managers = ''Ann''\<rparr>,
           \<lparr>Stat = ''FTA'', Value = Num 30, Managers = ''Cy''\<rparr>],
          [\<lparr>Stat = ''PTS'', Value = Num 90, Managers = ''Cy''\<rparr>,
           \<lparr>Stat = ''FGM'', Value = Num 35, Managers = ''Cy''\<rparr>,
           \<lparr>Stat = ''FGA'', Value = Num 80, Managers = ''Bob''\<rparr>,
           \<lparr>Stat = ''FTM'', Value = Num 15, Managers = ''Bob, Cy''\<rparr>,
           \<lparr>Stat = ''FTA'', Value = Num 25, Managers = ''Ann, Bob''\<rparr>])"
  by (simp add: max_min_stats_def files_written_def ex_shooting_df_def stat_list_def column_max_def
      column_min_def mk_stats_def)

theorem max_min_stats_true_extremes_witness:
  "(0::nat) < length ([''PTS''] @ [''FGM'', ''FGA'', ''FTM'', ''FTA'']) \<and>
   (\<exists>r\<in>set (rows ex_shooting_df). stat r ''PTS'' \<noteq> NaN) \<and>
   (\<exists>hi lo.
      (\<exists>r\<in>set (rows ex_shooting_df). stat r ''PTS'' = Num hi) \<and>
      (\<forall>r\<in>set (rows ex_shooting_df). \<forall>a. stat r ''PTS'' = Num a \<longrightarrow> a \<le> hi) \<and>
      \<lparr>Stat = ''PTS'', Value = Num 110, Managers = ''Ann, Bob''\<rparr> =
        \<lparr>Stat = ''PTS'', Value = Num hi,
         Managers = join '', '' (map manager
            (filter (\<lambda>r. stat r ''PTS'' = Num hi) (rows ex_shooting_df)))\<rparr> \<and>
      (\<exists>r\<in>set (rows ex_shooting_df). stat r ''PTS'' = Num lo) \<and>
      (\<forall>r\<in>set (rows ex_shooting_df). \<forall>a. stat r ''PTS'' = Num a \<longrightarrow> lo \<le> a) \<and>
      \<lparr>Stat = ''PTS'', Value = Num 90, Managers = ''Cy''\<rparr> =
        \<lparr>Stat = ''PTS'', Value = Num lo,
         Managers = join '', '' (map manager
            (filter (\<lambda>r. stat r ''PTS'' = Num lo) (rows ex_shooting_df)))\<rparr>)"
proof -
  have k: "(0::nat) < length ([''PTS''] @ [''FGM'', ''FGA'', ''FTM'', ''FTA''])" by simp
  have c: "''PTS'' = ([''PTS''] @ [''FGM'', ''FGA'', ''FTM'', ''FTA'']) ! 0" by simp
  have n: "\<exists>r\<in>set (rows ex_shooting_df). stat r ''PTS'' \<noteq> NaN"
    by (simp add: ex_shooting_df_def mk_stats_def)
  show ?thesis
    using max_min_stats_true_extremes [OF ex_max_min_stats k c n] k n by simp
qed

section \<open>Properties of the weekly accumulation loop\<close>

























lemma ex_dateRanges:
  "dateRanges 738095 738095 = [combine 738095 (23, 59, 59), combine 738096 (23, 59, 59)]"
  by (simp add: dateRanges_def py_range_def upt_conv_Cons)


lemma ex_stats_of_day:
  "map (\<lambda>d. stats_of_day ex_api nine_cats 2 738095 7 d ''PTS'') (dateRanges 738095 738095)
     = [[20], [11]]"
  by (simp add: ex_dateRanges stats_of_day_def ex_api_def combine_def nine_cats_def
      all_dash_def mk_cells_def Let_def)



end
